theory Spec2Isabelle
  imports Main "HOL-Library.Product_Lexorder"
begin

section \<open>Python floats on integer arguments\<close>

text \<open>
  \<^verbatim>\<open>_encode_score_with_tiebreaker\<close> computes
  \<^verbatim>\<open>float(best_score) * 1_000_000_000.0 - float(achieved_ts_ms)\<close> in IEEE-754 binary64.
  Both arguments are Python integers and the literal is an integer, so every finite value
  that occurs is an integer: a product or difference of integer-valued doubles is an
  integer, and rounding an integer to 53 significant bits gives an integer. A finite double
  is therefore modelled by the integer it denotes, and each operation is the exact integer
  operation followed by rounding to nearest, ties to even, at 53 significant bits. A
  magnitude that rounds to \<open>2 ^ 1024\<close> or more is an \<^verbatim>\<open>OverflowError\<close> in
  \<^verbatim>\<open>float(int)\<close> and an infinity in a product or a difference.
\<close>

function bit_length :: "int \<Rightarrow> nat" where
  "bit_length n = (if n \<le> 0 then 0 else Suc (bit_length (n div 2)))"
  by pat_completeness auto
termination
  by (relation "measure nat") auto

declare bit_length.simps [simp del]

text \<open>Rounding of a non-negative integer to 53 significant bits, ties to even.\<close>

definition round_half_even :: "int \<Rightarrow> int" where
  "round_half_even x =
     (if x < 2 ^ 53 then x
      else let e = bit_length x - 53;
               q = x div 2 ^ e;
               r = x mod 2 ^ e;
               half = 2 ^ (e - 1)
           in if r < half then q * 2 ^ e
              else if half < r then (q + 1) * 2 ^ e
              else if even q then q * 2 ^ e
              else (q + 1) * 2 ^ e)"

definition rnd :: "int \<Rightarrow> int" where
  "rnd x = (if x < 0 then - round_half_even (- x) else round_half_even x)"

datatype pyfloat = NegInf | Fin int | PosInf

instantiation pyfloat :: linorder
begin

fun less_eq_pyfloat :: "pyfloat \<Rightarrow> pyfloat \<Rightarrow> bool" where
  "less_eq_pyfloat NegInf y = True"
| "less_eq_pyfloat (Fin a) NegInf = False"
| "less_eq_pyfloat (Fin a) (Fin b) = (a \<le> b)"
| "less_eq_pyfloat (Fin a) PosInf = True"
| "less_eq_pyfloat PosInf NegInf = False"
| "less_eq_pyfloat PosInf (Fin b) = False"
| "less_eq_pyfloat PosInf PosInf = True"

definition less_pyfloat :: "pyfloat \<Rightarrow> pyfloat \<Rightarrow> bool" where
  "less_pyfloat x y = (x \<le> y \<and> \<not> y \<le> x)"

instance
proof
  fix x y z :: pyfloat
  show "(x < y) = (x \<le> y \<and> \<not> y \<le> x)"
    by (simp add: less_pyfloat_def)
  show "x \<le> x"
    by (cases x) simp_all
  show "x \<le> y \<Longrightarrow> y \<le> z \<Longrightarrow> x \<le> z"
    by (cases x; cases y; cases z) simp_all
  show "x \<le> y \<Longrightarrow> y \<le> x \<Longrightarrow> x = y"
    by (cases x; cases y) simp_all
  show "x \<le> y \<or> y \<le> x"
    by (cases x; cases y) auto
qed

end

datatype error =
    HTTPException nat
  | RequestValidationError
  | IntegrityError
  | DataError
  | OverflowError

text \<open>A rounded magnitude of \<open>2 ^ 1024\<close> or more is outside the finite doubles.\<close>

definition DBL_OVERFLOW :: int where
  "DBL_OVERFLOW = 2 ^ 1024"

text \<open>The double nearest to an exact integer result, or the infinity of its sign.\<close>

definition to_double :: "int \<Rightarrow> pyfloat" where
  "to_double x =
     (let r = rnd x
      in if DBL_OVERFLOW \<le> r then PosInf else if r \<le> - DBL_OVERFLOW then NegInf else Fin r)"

text \<open>\<^verbatim>\<open>float(n)\<close> for a Python integer: the nearest double, or \<^verbatim>\<open>OverflowError\<close>.\<close>

definition py_float :: "int \<Rightarrow> error + int" where
  "py_float n =
     (let r = rnd n
      in if DBL_OVERFLOW \<le> r \<or> r \<le> - DBL_OVERFLOW then Inl OverflowError else Inr r)"

text \<open>Product of two finite integer-valued doubles.\<close>

definition fmul :: "int \<Rightarrow> int \<Rightarrow> pyfloat" where
  "fmul a b = to_double (a * b)"

text \<open>Difference of a double and a finite integer-valued double.\<close>

fun fsub :: "pyfloat \<Rightarrow> int \<Rightarrow> pyfloat" where
  "fsub NegInf b = NegInf"
| "fsub PosInf b = PosInf"
| "fsub (Fin a) b = to_double (a - b)"

section \<open>The score encoder (redis\_client.py)\<close>

definition encode_score_with_tiebreaker :: "int \<Rightarrow> int \<Rightarrow> error + pyfloat" where
  "encode_score_with_tiebreaker best_score achieved_ts_ms =
     (case py_float best_score of
        Inl e \<Rightarrow> Inl e
      | Inr s \<Rightarrow>
          (case py_float achieved_ts_ms of
             Inl e \<Rightarrow> Inl e
           | Inr t \<Rightarrow> Inr (fsub (fmul s 1000000000) t)))"

text \<open>
  The Rank Index orders players by the encoded value, so one pair ranks strictly above
  another when both encodings exist and the first is the greater.
\<close>

definition ranks_above :: "error + pyfloat \<Rightarrow> error + pyfloat \<Rightarrow> bool" where
  "ranks_above a b = (case (a, b) of (Inr x, Inr y) \<Rightarrow> y < x | _ \<Rightarrow> False)"

section \<open>The Ledger (models.py)\<close>

text \<open>
  A player id is a UUID, taken as the 128-bit number it denotes; the canonical string of a
  UUID has fixed length and lower-case hexadecimal digits, so the byte order of the strings
  Redis compares is the order of the numbers. A \<^verbatim>\<open>datetime\<close> is a number of
  microseconds. The table \<^verbatim>\<open>playerleaderboard\<close> has \<^verbatim>\<open>player_id\<close> as its
  primary key and is a map from it; \<^verbatim>\<open>playerinfo\<close> is also searched by
  \<^verbatim>\<open>phone_or_email\<close> and is a list of rows; \<^verbatim>\<open>score_history\<close> is the list of
  its rows in insertion order (its surrogate key \<^verbatim>\<open>id\<close>, which no handler reads, is the
  position).
\<close>

type_synonym uuid = nat
type_synonym datetime = int

record PlayerInfo =
  player_id :: uuid
  name :: string
  phone_or_email :: string
  password_hash :: string
  created_at :: datetime

record PlayerLeaderboard =
  best_score :: int
  last_updated :: datetime

record ScoreHistory =
  history_player_id :: uuid
  score :: int
  history_created_at :: datetime

record database =
  playerinfo :: "PlayerInfo list"
  playerleaderboard :: "uuid \<rightharpoonup> PlayerLeaderboard"
  score_history :: "ScoreHistory list"

text \<open>The columns \<^verbatim>\<open>best_score\<close> and \<^verbatim>\<open>score\<close> are \<^verbatim>\<open>Integer\<close>: 32 bits, signed.\<close>

definition in_integer_column :: "int \<Rightarrow> bool" where
  "in_integer_column v = (- 2147483648 \<le> v \<and> v \<le> 2147483647)"

section \<open>The Rank Index (redis\_client.py)\<close>

text \<open>
  The sorted set \<^verbatim>\<open>global:leaderboard\<close> is a list of (member, score) pairs, kept with one
  pair per member; Redis orders it by score and, for equal scores, by member. The hashes
  \<^verbatim>\<open>player:meta:<id>\<close> are a map from the id to the two fields written.
\<close>

record redis =
  global_leaderboard :: "(uuid \<times> pyfloat) list"
  player_meta :: "uuid \<rightharpoonup> int \<times> int"

text \<open>\<^verbatim>\<open>ZADD key {member: score}\<close>: the member's score is set, whether it had one or not.\<close>

definition zadd :: "('m \<times> 's) list \<Rightarrow> 'm \<Rightarrow> 's \<Rightarrow> ('m \<times> 's) list" where
  "zadd z m sc = (m, sc) # filter (\<lambda>e. fst e \<noteq> m) z"

text \<open>The members from the highest score to the lowest, as the \<^verbatim>\<open>ZREV\<close> commands see them.\<close>

definition zset_desc :: "('m::linorder \<times> 's::linorder) list \<Rightarrow> ('m \<times> 's) list" where
  "zset_desc z = rev (sort_key (\<lambda>e. (snd e, fst e)) z)"

text \<open>
  \<^verbatim>\<open>ZREVRANGE key start stop WITHSCORES\<close>: a negative index counts from the end, a stop
  beyond the end is the end, and an empty range gives no element.
\<close>

definition zrevrange :: "('m::linorder \<times> 's::linorder) list \<Rightarrow> int \<Rightarrow> int \<Rightarrow> ('m \<times> 's) list" where
  "zrevrange z start stop =
     (let llen = int (length z);
          start1 = (if start < 0 then llen + start else start);
          stop1 = (if stop < 0 then llen + stop else stop);
          start2 = (if start1 < 0 then 0 else start1)
      in if stop1 < start2 \<or> llen \<le> start2 then []
         else let stop2 = (if llen \<le> stop1 then llen - 1 else stop1)
              in take (nat (stop2 - start2 + 1)) (drop (nat start2) (zset_desc z)))"

fun index_of :: "'a \<Rightarrow> 'a list \<Rightarrow> nat option" where
  "index_of x [] = None"
| "index_of x (y # ys) = (if x = y then Some 0 else map_option Suc (index_of x ys))"

text \<open>\<^verbatim>\<open>ZREVRANK key member\<close>: the 0-based position from the highest score, if a member.\<close>

definition zrevrank :: "('m::linorder \<times> 's::linorder) list \<Rightarrow> 'm \<Rightarrow> nat option" where
  "zrevrank z m = index_of m (map fst (zset_desc z))"

text \<open>
  \<^verbatim>\<open>update_leaderboard\<close> receives \<^verbatim>\<open>achieved_at\<close> as the float of
  \<^verbatim>\<open>datetime.timestamp()\<close> and takes \<^verbatim>\<open>int(achieved_at * 1000)\<close>. The conversion of a
  \<^verbatim>\<open>datetime\<close> to that integer goes through fractional floats and the local time zone;
  it is the parameter \<open>epoch_ms\<close>, and \<open>achieved_at\<close> is the \<^verbatim>\<open>datetime\<close> itself.
  The two writes are one \<^verbatim>\<open>MULTI\<close> transaction.
\<close>

definition update_leaderboard ::
  "(datetime \<Rightarrow> int) \<Rightarrow> redis \<Rightarrow> uuid \<Rightarrow> int \<Rightarrow> datetime \<Rightarrow> error + redis" where
  "update_leaderboard epoch_ms r pid best achieved_at =
     (let ts_ms = epoch_ms achieved_at
      in case encode_score_with_tiebreaker best ts_ms of
           Inl e \<Rightarrow> Inl e
         | Inr encoded_score \<Rightarrow>
             Inr (r\<lparr>global_leaderboard := zadd (global_leaderboard r) pid encoded_score,
                    player_meta := (player_meta r)(pid \<mapsto> (best, ts_ms))\<rparr>))"

definition get_top_n_from_redis :: "redis \<Rightarrow> int \<Rightarrow> (uuid \<times> pyfloat) list" where
  "get_top_n_from_redis r n = zrevrange (global_leaderboard r) 0 (n - 1)"

definition get_rank_from_redis :: "redis \<Rightarrow> uuid \<Rightarrow> nat option" where
  "get_rank_from_redis r pid =
     (case zrevrank (global_leaderboard r) pid of
        None \<Rightarrow> None
      | Some rank \<Rightarrow> Some (rank + 1))"

section \<open>The request handlers (main.py)\<close>

text \<open>
  What the handlers take from outside the repository is a parameter: the conversion of a
  \<^verbatim>\<open>datetime\<close> to epoch milliseconds and the two functions of the password library.
  The reading of \<^verbatim>\<open>datetime.utcnow()\<close> is the argument \<open>now\<close> of a handler, and
  the result of \<^verbatim>\<open>uuid.uuid4()\<close> is the argument \<open>new_id\<close> of \<open>signup\<close>.
\<close>

record env =
  epoch_ms :: "datetime \<Rightarrow> int"
  hash_password :: "string \<Rightarrow> string"
  verify_password :: "string \<Rightarrow> string \<Rightarrow> bool"

record state =
  db :: database
  rank_index :: redis

definition init_state :: state where
  "init_state =
     \<lparr>db = \<lparr>playerinfo = [], playerleaderboard = Map.empty, score_history = []\<rparr>,
      rank_index = \<lparr>global_leaderboard = [], player_meta = Map.empty\<rparr>\<rparr>"

text \<open>The constraints of \<^verbatim>\<open>schemas.py\<close>, checked before a handler's body runs.\<close>

definition SignupRequest_valid :: "string \<Rightarrow> string \<Rightarrow> string \<Rightarrow> bool" where
  "SignupRequest_valid nm contact password =
     (1 \<le> length nm \<and> length nm \<le> 100 \<and>
      3 \<le> length contact \<and> length contact \<le> 255 \<and>
      6 \<le> length password \<and> length password \<le> 128)"

definition SubmitScoreRequest_valid :: "int \<Rightarrow> bool" where
  "SubmitScoreRequest_valid sc = (0 \<le> sc)"

text \<open>
  \<open>signup\<close>: the player's row and its leaderboard row are written in one transaction; a
  \<open>new_id\<close> that is already a primary key fails the flush or the commit and nothing is
  written. \<open>created\<close> is the clock reading of the column default of
  \<^verbatim>\<open>created_at\<close>.
\<close>

definition signup ::
  "env \<Rightarrow> state \<Rightarrow> string \<Rightarrow> string \<Rightarrow> string \<Rightarrow> uuid \<Rightarrow> datetime \<Rightarrow> datetime
     \<Rightarrow> (error + string) \<times> state" where
  "signup ev s nm contact password new_id created now =
     (case find (\<lambda>p. phone_or_email p = contact) (playerinfo (db s)) of
        Some existing \<Rightarrow> (Inl (HTTPException 400), s)
      | None \<Rightarrow>
          (let player = \<lparr>player_id = new_id, name = nm, phone_or_email = contact,
                          password_hash = hash_password ev password, created_at = created\<rparr>;
               leaderboard = \<lparr>best_score = 0, last_updated = now\<rparr>
           in if find (\<lambda>p. player_id p = new_id) (playerinfo (db s)) \<noteq> None
                   \<or> playerleaderboard (db s) new_id \<noteq> None
              then (Inl IntegrityError, s)
              else (Inr ''Signup successful. Please log in.'',
                    s\<lparr>db := (db s)\<lparr>playerinfo := playerinfo (db s) @ [player],
                                    playerleaderboard :=
                                      (playerleaderboard (db s))(new_id \<mapsto> leaderboard)\<rparr>\<rparr>)))"

definition login :: "env \<Rightarrow> state \<Rightarrow> string \<Rightarrow> string \<Rightarrow> error + uuid \<times> string" where
  "login ev s contact password =
     (case find (\<lambda>p. phone_or_email p = contact) (playerinfo (db s)) of
        None \<Rightarrow> Inl (HTTPException 401)
      | Some player \<Rightarrow>
          if \<not> verify_password ev password (password_hash player)
          then Inl (HTTPException 401)
          else Inr (player_id player, name player))"

text \<open>
  \<open>submit_score\<close>: the history row and the leaderboard row are written by the one commit,
  which fails as a whole when a value does not fit its \<^verbatim>\<open>Integer\<close> column; the Rank
  Index is written after the commit, so an error there leaves the Ledger written.
\<close>

definition submit_score ::
  "env \<Rightarrow> state \<Rightarrow> uuid \<Rightarrow> int \<Rightarrow> datetime \<Rightarrow> (error + string) \<times> state" where
  "submit_score ev s pid sc now =
     (case find (\<lambda>p. player_id p = pid) (playerinfo (db s)) of
        None \<Rightarrow> (Inl (HTTPException 404), s)
      | Some player \<Rightarrow>
          (let history = \<lparr>history_player_id = pid, score = sc, history_created_at = now\<rparr>;
               leaderboard =
                 (case playerleaderboard (db s) pid of
                    None \<Rightarrow> \<lparr>best_score = sc, last_updated = now\<rparr>
                  | Some l \<Rightarrow>
                      if best_score l < sc then l\<lparr>best_score := sc, last_updated := now\<rparr>
                      else l)
           in if \<not> in_integer_column sc then (Inl DataError, s)
              else
                (let s1 = s\<lparr>db := (db s)\<lparr>score_history := score_history (db s) @ [history],
                                          playerleaderboard :=
                                            (playerleaderboard (db s))(pid \<mapsto> leaderboard)\<rparr>\<rparr>
                 in case update_leaderboard (epoch_ms ev) (rank_index s1) pid
                           (best_score leaderboard) (last_updated leaderboard) of
                      Inl e \<Rightarrow> (Inl e, s1)
                    | Inr r \<Rightarrow> (Inr ''Score submitted'', s1\<lparr>rank_index := r\<rparr>))))"

record PlayerLeaderboardEntry =
  entry_rank :: nat
  entry_player_id :: uuid
  entry_name :: string
  entry_score :: int
  entry_last_updated :: datetime

record LeaderboardResponse =
  total :: nat
  items :: "PlayerLeaderboardEntry list"

text \<open>
  The joined rows of \<^verbatim>\<open>playerinfo\<close> and \<^verbatim>\<open>playerleaderboard\<close> whose id is among
  \<open>player_ids\<close>, and the dictionary built from them (a later row wins a key).
\<close>

definition joined_players ::
  "database \<Rightarrow> uuid list \<Rightarrow> (PlayerInfo \<times> PlayerLeaderboard) list" where
  "joined_players d player_ids =
     List.map_filter
       (\<lambda>p. if player_id p \<in> set player_ids
            then map_option (\<lambda>l. (p, l)) (playerleaderboard d (player_id p))
            else None)
       (playerinfo d)"

definition info_map_of ::
  "(PlayerInfo \<times> PlayerLeaderboard) list \<Rightarrow> uuid \<rightharpoonup> PlayerInfo \<times> PlayerLeaderboard" where
  "info_map_of players = map_of (rev (map (\<lambda>pl. (player_id (fst pl), pl)) players))"

text \<open>The loop over \<^verbatim>\<open>enumerate(redis_entries)\<close>.\<close>

fun build_items ::
  "(uuid \<rightharpoonup> PlayerInfo \<times> PlayerLeaderboard) \<Rightarrow> (nat \<times> uuid \<times> pyfloat) list
     \<Rightarrow> PlayerLeaderboardEntry list" where
  "build_items info_map [] = []"
| "build_items info_map ((idx, pid, enc) # rest) =
     (case info_map pid of
        None \<Rightarrow> build_items info_map rest
      | Some (player, leaderboard) \<Rightarrow>
          \<lparr>entry_rank = idx + 1, entry_player_id = player_id player, entry_name = name player,
           entry_score = best_score leaderboard,
           entry_last_updated = last_updated leaderboard\<rparr>
          # build_items info_map rest)"

definition get_top_leaderboard :: "state \<Rightarrow> int \<Rightarrow> error + LeaderboardResponse" where
  "get_top_leaderboard s n =
     (if n < 1 \<or> 100 < n then Inl RequestValidationError
      else let redis_entries = get_top_n_from_redis (rank_index s) n;
               player_ids = map fst redis_entries
           in if player_ids = [] then Inr \<lparr>total = 0, items = []\<rparr>
              else let info_map = info_map_of (joined_players (db s) player_ids);
                       its = build_items info_map (enumerate 0 redis_entries)
                   in Inr \<lparr>total = length its, items = its\<rparr>)"

record PlayerProfileResponse =
  profile_player_id :: uuid
  profile_name :: string
  profile_phone_or_email :: string
  profile_rank :: "nat option"
  profile_best_score :: int
  profile_last_updated :: datetime

definition get_player_profile :: "state \<Rightarrow> uuid \<Rightarrow> error + PlayerProfileResponse" where
  "get_player_profile s pid =
     (case find (\<lambda>p. player_id p = pid) (playerinfo (db s)) of
        None \<Rightarrow> Inl (HTTPException 404)
      | Some player_info \<Rightarrow>
          (case playerleaderboard (db s) pid of
             None \<Rightarrow> Inl (HTTPException 404)
           | Some leaderboard \<Rightarrow>
               Inr \<lparr>profile_player_id = player_id player_info,
                    profile_name = name player_info,
                    profile_phone_or_email = phone_or_email player_info,
                    profile_rank = get_rank_from_redis (rank_index s) pid,
                    profile_best_score = best_score leaderboard,
                    profile_last_updated = last_updated leaderboard\<rparr>))"

text \<open>
  \<open>get_player_history\<close>: the newest rows first; rows of one timestamp are listed in the
  order of their insertion.
\<close>

definition get_player_history ::
  "state \<Rightarrow> uuid \<Rightarrow> int \<Rightarrow> error + uuid \<times> string \<times> (int \<times> datetime) list" where
  "get_player_history s pid limit =
     (if limit < 1 \<or> 100 < limit then Inl RequestValidationError
      else case find (\<lambda>p. player_id p = pid) (playerinfo (db s)) of
             None \<Rightarrow> Inl (HTTPException 404)
           | Some player \<Rightarrow>
               (let scores = take (nat limit)
                      (sort_key (\<lambda>h. - history_created_at h)
                         (filter (\<lambda>h. history_player_id h = pid) (score_history (db s))))
                in Inr (player_id player, name player,
                        map (\<lambda>h. (score h, history_created_at h)) scores)))"

section \<open>Runs of the service\<close>

text \<open>
  A request with what its handler draws from outside: the fresh id and the clock reading of
  the column default for a signup. A request that fails validation does not reach its
  handler; the four read handlers return no state, so they leave it as it is.
\<close>

datatype request =
    Signup string string string uuid datetime
  | Login string string
  | SubmitScore uuid int
  | GetTop int
  | GetProfile uuid
  | GetHistory uuid int

fun step :: "env \<Rightarrow> state \<Rightarrow> datetime \<Rightarrow> request \<Rightarrow> state" where
  "step ev s now (Signup nm contact password new_id created) =
     (if SignupRequest_valid nm contact password
      then snd (signup ev s nm contact password new_id created now) else s)"
| "step ev s now (SubmitScore pid sc) =
     (if SubmitScoreRequest_valid sc then snd (submit_score ev s pid sc now) else s)"
| "step ev s now (Login contact password) = s"
| "step ev s now (GetTop n) = s"
| "step ev s now (GetProfile pid) = s"
| "step ev s now (GetHistory pid limit) = s"

text \<open>
  The states the service reaches from the empty stores, by any requests at any readings of
  the clock: no handler compares a reading with an earlier one.
\<close>

inductive reachable :: "env \<Rightarrow> state \<Rightarrow> bool" for ev :: env where
  reachable_init: "reachable ev init_state"
| reachable_step: "reachable ev s \<Longrightarrow> reachable ev (step ev s now r)"

text \<open>A sequence of submissions (score, clock reading) of one player, in order.\<close>

fun submit_scores :: "env \<Rightarrow> state \<Rightarrow> uuid \<Rightarrow> (int \<times> datetime) list \<Rightarrow> state" where
  "submit_scores ev s pid [] = s"
| "submit_scores ev s pid ((sc, now) # rest) =
     submit_scores ev (snd (submit_score ev s pid sc now)) pid rest"

text \<open>The timestamp of the first submission of a sequence whose score is \<open>m\<close>.\<close>

definition first_achieved :: "int \<Rightarrow> (int \<times> datetime) list \<Rightarrow> datetime option" where
  "first_achieved m subs = map_option snd (find (\<lambda>x. fst x = m) subs)"

section \<open>Example states\<close>

text \<open>
  An environment whose clock conversion drops the microseconds, and the state after the
  signup of one player at clock reading 1000 (the column default read the clock at 900).
\<close>

definition demo_env :: env where
  "demo_env = \<lparr>epoch_ms = (\<lambda>dt. dt div 1000), hash_password = rev,
               verify_password = (\<lambda>password h. rev password = h)\<rparr>"

definition demo_state :: state where
  "demo_state = snd (signup demo_env init_state ''Ann'' ''ann@example.com'' ''secret1'' 7 900 1000)"

text \<open>
  A state with drift between the stores: the Rank Index lists player 9, who has no row in
  the Ledger, above player 7, who has.
\<close>

definition drift_state :: state where
  "drift_state =
     \<lparr>db = \<lparr>playerinfo = [\<lparr>player_id = 7, name = ''Ann'', phone_or_email = ''ann@example.com'',
                            password_hash = ''1terces'', created_at = 900\<rparr>],
            playerleaderboard = [7 \<mapsto> \<lparr>best_score = 50, last_updated = 2000\<rparr>],
            score_history = [\<lparr>history_player_id = 7, score = 50, history_created_at = 2000\<rparr>]\<rparr>,
      rank_index = \<lparr>global_leaderboard = [(7, Fin 49999999998), (9, Fin 99999999997)],
                    player_meta = [7 \<mapsto> (50, 2), 9 \<mapsto> (100, 3)]\<rparr>\<rparr>"

text \<open>
  A state in which a registered player has no best-score row: the service does not reach
  it, but \<open>submit_score\<close> provides for it.
\<close>

definition rowless_state :: state where
  "rowless_state =
     \<lparr>db = \<lparr>playerinfo = [\<lparr>player_id = 7, name = ''Ann'', phone_or_email = ''ann@example.com'',
                            password_hash = ''1terces'', created_at = 900\<rparr>],
            playerleaderboard = Map.empty,
            score_history = []\<rparr>,
      rank_index = \<lparr>global_leaderboard = [], player_meta = Map.empty\<rparr>\<rparr>"

text \<open>
  The state after two signups and two submissions: Bob (player 9) submits the score 9 on
  14 Nov 2023, Ann (player 7) submits the score 10 on 27 Nov 2023.
\<close>

definition inversion_state :: state where
  "inversion_state =
     step demo_env
       (step demo_env
          (step demo_env
             (step demo_env init_state 1690000000000000
                (Signup ''Ann'' ''ann@example.com'' ''secret1'' 7 1690000000000000))
             1690000000000000 (Signup ''Bob'' ''bob@example.com'' ''secret2'' 9 1690000000000000))
          1700000000000000 (SubmitScore 9 9))
       1701100000000000 (SubmitScore 7 10)"

section \<open>Properties of the rounding\<close>

lemma Fin_less [simp]: "(Fin a < Fin b) = (a < b)"
  by (auto simp: less_pyfloat_def)

lemma bit_length_upper: "x < 2 ^ k \<Longrightarrow> bit_length x \<le> k"
proof (induction k arbitrary: x)
  case 0
  then show ?case by (simp add: bit_length.simps)
next
  case (Suc k)
  have "x div 2 < 2 ^ k" using Suc.prems by simp
  then have "bit_length (x div 2) \<le> k" by (rule Suc.IH)
  then show ?case by (subst bit_length.simps) simp
qed

lemma bit_length_lower: "2 ^ k \<le> x \<Longrightarrow> k < bit_length x"
proof (induction k arbitrary: x)
  case 0
  then show ?case by (subst bit_length.simps) simp
next
  case (Suc k)
  have "2 ^ k \<le> x div 2" using Suc.prems by simp
  then have "k < bit_length (x div 2)" by (rule Suc.IH)
  moreover have "0 < x" using Suc.prems by (smt (verit) zero_less_power)
  ultimately show ?case by (subst bit_length.simps) simp
qed

lemma round_half_even_err:
  assumes "0 \<le> x" "x < 2 ^ 62"
  shows "\<bar>round_half_even x - x\<bar> \<le> 256"
proof (cases "x < 2 ^ 53")
  case True
  then show ?thesis by (simp add: round_half_even_def)
next
  case False
  define e where "e = bit_length x - 53"
  have "53 < bit_length x" using False bit_length_lower[of 53 x] by simp
  moreover have "bit_length x \<le> 62" using assms bit_length_upper[of x 62] by simp
  ultimately have e: "1 \<le> e" "e \<le> 9" by (simp_all add: e_def)
  define h :: int where "h = 2 ^ (e - 1)"
  have p: "(2::int) ^ e = 2 * h" using e by (simp add: h_def power_eq_if)
  have "h \<le> 2 ^ 8" unfolding h_def using e by (intro power_increasing) simp_all
  then have h: "0 < h" "h \<le> 256" by (simp_all add: h_def)
  define q where "q = x div (2 * h)"
  define r where "r = x mod (2 * h)"
  have x: "x = q * (2 * h) + r" unfolding q_def r_def by (rule div_mult_mod_eq[symmetric])
  have r: "0 \<le> r" "r < 2 * h" using h by (simp_all add: r_def)
  have "round_half_even x = (if r < h then q * (2 * h)
              else if h < r then (q + 1) * (2 * h)
              else if even q then q * (2 * h)
              else (q + 1) * (2 * h))"
    unfolding round_half_even_def Let_def using False
    by (simp only: e_def[symmetric] h_def[symmetric] p q_def r_def if_False)
  then show ?thesis using x r h by (auto simp: algebra_simps)
qed

lemma rnd_err: "\<bar>x\<bar> < 2 ^ 62 \<Longrightarrow> \<bar>rnd x - x\<bar> \<le> 256"
  using round_half_even_err[of x] round_half_even_err[of "- x"]
  by (auto simp: rnd_def)

lemma rnd_exact: "\<bar>x\<bar> < 2 ^ 53 \<Longrightarrow> rnd x = x"
  by (auto simp: rnd_def round_half_even_def)

lemma rnd_exact_53:
  "rnd 9007199254740992 = 9007199254740992" "rnd (- 9007199254740992) = - 9007199254740992"
  by code_simp+

lemma rnd_exact_le:
  assumes "\<bar>x\<bar> \<le> 2 ^ 53"
  shows "rnd x = x"
proof -
  consider "\<bar>x\<bar> < 2 ^ 53" | "x = 2 ^ 53" | "x = - (2 ^ 53)"
    using assms by fastforce
  then show ?thesis
    by cases (simp_all add: rnd_exact rnd_exact_53 del: abs_less_iff)
qed


lemma finite_range:
  assumes "\<bar>r\<bar> < 2 ^ 63"
  shows "\<not> DBL_OVERFLOW \<le> r" "\<not> r \<le> - DBL_OVERFLOW"
proof -
  have "(2::int) ^ 63 \<le> 2 ^ 1024" by (rule power_increasing) simp_all
  then have "\<bar>r\<bar> < DBL_OVERFLOW" unfolding DBL_OVERFLOW_def using assms by (rule less_le_trans[rotated])
  then show "\<not> DBL_OVERFLOW \<le> r" "\<not> r \<le> - DBL_OVERFLOW" by simp_all
qed

lemma py_float_exact: "\<bar>x\<bar> \<le> 2 ^ 53 \<Longrightarrow> py_float x = Inr x"
  using finite_range[of x] by (simp add: py_float_def rnd_exact_le del: abs_le_iff)

lemma to_double_exact: "\<bar>x\<bar> \<le> 2 ^ 53 \<Longrightarrow> to_double x = Fin x"
  using finite_range[of x] by (simp add: to_double_def rnd_exact_le del: abs_le_iff)

lemma to_double_near:
  assumes "\<bar>x\<bar> < 2 ^ 62"
  shows "\<exists>r. to_double x = Fin r \<and> \<bar>r - x\<bar> \<le> 256"
proof -
  have "\<bar>rnd x - x\<bar> \<le> 256" using assms by (rule rnd_err)
  moreover from this assms have "\<bar>rnd x\<bar> < 2 ^ 63" by simp
  ultimately show ?thesis using finite_range[of "rnd x"] by (simp add: to_double_def Let_def)
qed

lemma encode_exact:
  assumes "0 \<le> s" "s \<le> 9007199" "0 \<le> t" "t \<le> 2 ^ 53"
  shows "encode_score_with_tiebreaker s t = Inr (Fin (s * 1000000000 - t))"
proof -
  have s: "py_float s = Inr s" using assms by (intro py_float_exact) simp
  have t: "py_float t = Inr t" using assms by (intro py_float_exact) simp
  have "s * 1000000000 \<le> 9007199 * 1000000000" using assms by simp
  then have b: "s * 1000000000 \<le> 2 ^ 53" by simp
  have m: "fmul s 1000000000 = Fin (s * 1000000000)"
    unfolding fmul_def using assms b by (intro to_double_exact) simp
  have d: "to_double (s * 1000000000 - t) = Fin (s * 1000000000 - t)"
    using assms b by (intro to_double_exact) simp
  show ?thesis by (simp add: encode_score_with_tiebreaker_def s t m d)
qed

lemma encode_near:
  assumes "0 \<le> s" "s < 2 ^ 31" "0 \<le> t" "t \<le> 2 ^ 53"
  shows "\<exists>r. encode_score_with_tiebreaker s t = Inr (Fin r) \<and> \<bar>r - (s * 1000000000 - t)\<bar> \<le> 512"
proof -
  have s: "py_float s = Inr s" using assms by (intro py_float_exact) simp
  have t: "py_float t = Inr t" using assms by (intro py_float_exact) simp
  have "s * 1000000000 \<le> 2 ^ 31 * 1000000000" using assms by simp
  then have b: "s * 1000000000 < 2 ^ 61" by simp
  obtain a where a: "fmul s 1000000000 = Fin a" "\<bar>a - s * 1000000000\<bar> \<le> 256"
    unfolding fmul_def using to_double_near[of "s * 1000000000"] assms b by auto
  obtain r where r: "to_double (a - t) = Fin r" "\<bar>r - (a - t)\<bar> \<le> 256"
  proof -
    have "\<bar>a - t\<bar> < 2 ^ 62" using a assms b by simp
    from to_double_near[OF this] that show ?thesis by blast
  qed
  have "encode_score_with_tiebreaker s t = Inr (Fin r)"
    by (simp add: encode_score_with_tiebreaker_def s t a r)
  moreover have "\<bar>r - (s * 1000000000 - t)\<bar> \<le> 512" using a r by simp
  ultimately show ?thesis by blast
qed

section \<open>The encoder: order, exactness and their limits\<close>

lemma encode_eval_boundary:
  "encode_score_with_tiebreaker 2147483647 1700000000001 = Inr (Fin 2147481947000000000)"
  by code_simp

lemma encode_eval_tie_early:
  "encode_score_with_tiebreaker 10000000 1700000000000 = Inr (Fin 9998300000000000)"
  by code_simp

lemma encode_eval_tie_late:
  "encode_score_with_tiebreaker 10000000 1700000000001 = Inr (Fin 9998300000000000)"
  by code_simp

text \<open>
  C3, as stated, fails. At the largest score of the \<^verbatim>\<open>Integer\<close> column the encoding of a
  present-day timestamp is not the exact value of score times \<open>10 ^ 9\<close> minus timestamp,
  and a score of 1 does not rank above a score of 0 reached \<open>10 ^ 10\<close> ms earlier.
\<close>

theorem encode_range_counterexample:
  "encode_score_with_tiebreaker 2147483647 1700000000001 = Inr (Fin 2147481947000000000) \<and>
   (2147481947000000000 :: int) \<noteq> 2147483647 * 1000000000 - 1700000000001 \<and>
   \<not> ranks_above (encode_score_with_tiebreaker 1 1700000000000)
                 (encode_score_with_tiebreaker 0 1690000000000)"
proof -
  have a: "encode_score_with_tiebreaker 1 1700000000000 = Inr (Fin (- 1699000000000))"
    using encode_exact[of 1 1700000000000] by simp
  have b: "encode_score_with_tiebreaker 0 1690000000000 = Inr (Fin (- 1690000000000))"
    using encode_exact[of 0 1690000000000] by simp
  show ?thesis by (simp add: a b encode_eval_boundary ranks_above_def)
qed

text \<open>
  C3, amended. With the factor \<open>10 ^ 9\<close> the encoder computes score times \<open>10 ^ 9\<close>
  minus timestamp without any rounding for every score from 0 to 9007199 (the largest whose
  product with \<open>10 ^ 9\<close> is at most \<open>2 ^ 53\<close>) and every timestamp from 0 to
  \<open>2 ^ 53\<close> ms: on that range all three values stay within the exact-integer range of
  a double.
\<close>

theorem encode_exact_range:
  "0 \<le> s \<Longrightarrow> s \<le> 9007199 \<Longrightarrow> 0 \<le> t \<Longrightarrow> t \<le> 2 ^ 53 \<Longrightarrow>
   encode_score_with_tiebreaker s t = Inr (Fin (s * 1000000000 - t))"
  by (rule encode_exact)

theorem encode_exact_range_witness:
  "encode_score_with_tiebreaker 9007199 1700000000000 = Inr (Fin 9005499000000000)"
  using encode_exact_range[of 9007199 1700000000000] by simp

text \<open>
  C8, as stated, fails in its second half. For the score 10000000 two timestamps one
  millisecond apart have the same encoding: the values lie above \<open>2 ^ 53\<close>, where
  doubles are two apart.
\<close>

theorem encode_tiebreak_counterexample:
  "encode_score_with_tiebreaker 10000000 1700000000000 = Inr (Fin 9998300000000000) \<and>
   encode_score_with_tiebreaker 10000000 1700000000001 = Inr (Fin 9998300000000000) \<and>
   \<not> ranks_above (encode_score_with_tiebreaker 10000000 1700000000000)
                 (encode_score_with_tiebreaker 10000000 1700000000001)"
  by (simp add: encode_eval_tie_early encode_eval_tie_late ranks_above_def)

text \<open>
  C8, amended. For a fixed timestamp from 0 to \<open>2 ^ 53\<close> ms the higher of two scores
  from 0 to \<open>2 ^ 31 - 1\<close> has the strictly greater encoding; for a fixed score from 0 to
  9007199 the earlier of two timestamps from 0 to \<open>2 ^ 53\<close> ms has the strictly greater
  encoding.
\<close>

theorem encode_monotone:
  "(0 \<le> lo \<and> lo < hi \<and> hi < 2 ^ 31 \<and> 0 \<le> t \<and> t \<le> 2 ^ 53 \<longrightarrow>
      ranks_above (encode_score_with_tiebreaker hi t) (encode_score_with_tiebreaker lo t)) \<and>
   (0 \<le> s \<and> s \<le> 9007199 \<and> 0 \<le> early \<and> early < late \<and> late \<le> 2 ^ 53 \<longrightarrow>
      ranks_above (encode_score_with_tiebreaker s early) (encode_score_with_tiebreaker s late))"
proof (intro conjI impI)
  assume h: "0 \<le> lo \<and> lo < hi \<and> hi < 2 ^ 31 \<and> 0 \<le> t \<and> t \<le> 2 ^ 53"
  obtain r1 where r1: "encode_score_with_tiebreaker hi t = Inr (Fin r1)"
    "\<bar>r1 - (hi * 1000000000 - t)\<bar> \<le> 512"
    using encode_near[of hi t] h by auto
  obtain r2 where r2: "encode_score_with_tiebreaker lo t = Inr (Fin r2)"
    "\<bar>r2 - (lo * 1000000000 - t)\<bar> \<le> 512"
    using encode_near[of lo t] h by auto
  have "lo + 1 \<le> hi" using h by simp
  then have "(lo + 1) * 1000000000 \<le> hi * 1000000000" by (rule mult_right_mono) simp
  then have "r2 < r1" using r1(2) r2(2) by (simp add: algebra_simps)
  then show "ranks_above (encode_score_with_tiebreaker hi t) (encode_score_with_tiebreaker lo t)"
    by (simp add: r1 r2 ranks_above_def)
next
  assume h: "0 \<le> s \<and> s \<le> 9007199 \<and> 0 \<le> early \<and> early < late \<and> late \<le> 2 ^ 53"
  have "encode_score_with_tiebreaker s early = Inr (Fin (s * 1000000000 - early))"
    using h by (intro encode_exact) simp_all
  moreover have "encode_score_with_tiebreaker s late = Inr (Fin (s * 1000000000 - late))"
    using h by (intro encode_exact) simp_all
  ultimately show
    "ranks_above (encode_score_with_tiebreaker s early) (encode_score_with_tiebreaker s late)"
    using h by (simp add: ranks_above_def)
qed

theorem encode_monotone_witness:
  "ranks_above (encode_score_with_tiebreaker 2147483647 1700000000000)
               (encode_score_with_tiebreaker 2147483646 1700000000000) \<and>
   ranks_above (encode_score_with_tiebreaker 50 1700000000000)
               (encode_score_with_tiebreaker 50 1700000000001)"
  using encode_monotone[of 2147483646 2147483647 1700000000000 50 1700000000000 1700000000001]
  by simp

section \<open>Score submission\<close>

lemma demo_state_eq:
  "demo_state =
     \<lparr>db = \<lparr>playerinfo = [\<lparr>player_id = 7, name = ''Ann'', phone_or_email = ''ann@example.com'',
                            password_hash = ''1terces'', created_at = 900\<rparr>],
            playerleaderboard = [7 \<mapsto> \<lparr>best_score = 0, last_updated = 1000\<rparr>],
            score_history = []\<rparr>,
      rank_index = \<lparr>global_leaderboard = [], player_meta = Map.empty\<rparr>\<rparr>"
  by (simp add: demo_state_def signup_def init_state_def demo_env_def)

lemma demo_encode_zero: "encode_score_with_tiebreaker 0 1 = Inr (Fin (- 1))"
  using encode_exact[of 0 1] by simp

lemma demo_encode_fifty: "encode_score_with_tiebreaker 50 2 = Inr (Fin 49999999998)"
  using encode_exact[of 50 2] by simp

lemma demo_submit_fifty:
  "submit_score demo_env demo_state 7 50 2000 =
     (Inr ''Score submitted'',
      \<lparr>db = \<lparr>playerinfo = [\<lparr>player_id = 7, name = ''Ann'', phone_or_email = ''ann@example.com'',
                            password_hash = ''1terces'', created_at = 900\<rparr>],
             playerleaderboard = [7 \<mapsto> \<lparr>best_score = 50, last_updated = 2000\<rparr>],
             score_history = [\<lparr>history_player_id = 7, score = 50, history_created_at = 2000\<rparr>]\<rparr>,
       rank_index = \<lparr>global_leaderboard = [(7, Fin 49999999998)],
                     player_meta = [7 \<mapsto> (50, 2)]\<rparr>\<rparr>)"
  by (simp add: demo_state_eq submit_score_def in_integer_column_def update_leaderboard_def
        demo_env_def demo_encode_fifty zadd_def)

text \<open>
  C6. A submission for a player id that has no row in \<^verbatim>\<open>playerinfo\<close> fails with
  the HTTP error 404 (not found) and returns the state as it was: the score history, the
  best-score rows and the Rank Index are all unchanged.
\<close>

theorem submit_score_unknown_player:
  "find (\<lambda>p. player_id p = pid) (playerinfo (db s)) = None \<Longrightarrow>
   submit_score ev s pid sc now = (Inl (HTTPException 404), s)"
  by (simp add: submit_score_def)

theorem submit_score_unknown_player_witness:
  "submit_score demo_env demo_state 8 10 2000 = (Inl (HTTPException 404), demo_state)"
  using submit_score_unknown_player[of 8 demo_state demo_env 10 2000]
  by (simp add: demo_state_eq)

lemma row_update:
  "(l :: PlayerLeaderboard)\<lparr>best_score := sc, last_updated := now\<rparr> =
   \<lparr>best_score = sc, last_updated = now\<rparr>"
  by (cases l) simp

lemma submit_score_fail:
  "find (\<lambda>p. player_id p = pid) (playerinfo (db s)) = None \<or> \<not> in_integer_column sc \<Longrightarrow>
   submit_score ev s pid sc now = (Inl (HTTPException 404), s) \<or>
   submit_score ev s pid sc now = (Inl DataError, s)"
  by (cases "find (\<lambda>p. player_id p = pid) (playerinfo (db s))")
     (auto simp: submit_score_def Let_def)

lemma submit_score_db:
  "find (\<lambda>p. player_id p = pid) (playerinfo (db s)) = Some p \<Longrightarrow> in_integer_column sc \<Longrightarrow>
   db (snd (submit_score ev s pid sc now)) =
     (db s)\<lparr>score_history :=
               score_history (db s) @
                 [\<lparr>history_player_id = pid, score = sc, history_created_at = now\<rparr>],
             playerleaderboard :=
               (playerleaderboard (db s))
                 (pid \<mapsto> (case playerleaderboard (db s) pid of
                            None \<Rightarrow> \<lparr>best_score = sc, last_updated = now\<rparr>
                          | Some l \<Rightarrow>
                              if best_score l < sc
                              then \<lparr>best_score = sc, last_updated = now\<rparr> else l))\<rparr>"
  by (simp add: submit_score_def Let_def row_update split: option.splits sum.splits)

text \<open>
  C10. A call of \<open>submit_score\<close> for a registered player with a score that fits the
  \<^verbatim>\<open>Integer\<close> column appends one history row whose \<^verbatim>\<open>created_at\<close> is the clock
  reading \<open>now\<close> of that call, and leaves the player's best-score row either as it was or
  as the submitted score with that same \<open>now\<close> as \<^verbatim>\<open>last_updated\<close> (created when there
  was none, replaced when the score is strictly greater); no other best-score row changes.
  Any other call fails with 404 or with the database error and writes nothing.
\<close>

theorem submit_score_single_timestamp:
  "submit_score ev s pid sc now = (res, s') \<Longrightarrow>
   (find (\<lambda>p. player_id p = pid) (playerinfo (db s)) \<noteq> None \<and> in_integer_column sc \<longrightarrow>
      score_history (db s') =
        score_history (db s) @
          [\<lparr>history_player_id = pid, score = sc, history_created_at = now\<rparr>] \<and>
      playerleaderboard (db s') =
        (playerleaderboard (db s))
          (pid \<mapsto> (case playerleaderboard (db s) pid of
                     None \<Rightarrow> \<lparr>best_score = sc, last_updated = now\<rparr>
                   | Some l \<Rightarrow>
                       if best_score l < sc then \<lparr>best_score = sc, last_updated = now\<rparr>
                       else l)) \<and>
      (\<forall>q. playerleaderboard (db s') q \<noteq> playerleaderboard (db s) q \<longrightarrow>
           q = pid \<and>
           playerleaderboard (db s') q = Some \<lparr>best_score = sc, last_updated = now\<rparr>)) \<and>
   (find (\<lambda>p. player_id p = pid) (playerinfo (db s)) = None \<or> \<not> in_integer_column sc \<longrightarrow>
      s' = s \<and> (res = Inl (HTTPException 404) \<or> res = Inl DataError))"
proof -
  assume r: "submit_score ev s pid sc now = (res, s')"
  have fail: "s' = s \<and> (res = Inl (HTTPException 404) \<or> res = Inl DataError)"
    if "find (\<lambda>p. player_id p = pid) (playerinfo (db s)) = None \<or> \<not> in_integer_column sc"
    using submit_score_fail[OF that, of ev now] r by auto
  have ok: "score_history (db s') =
        score_history (db s) @
          [\<lparr>history_player_id = pid, score = sc, history_created_at = now\<rparr>] \<and>
      playerleaderboard (db s') =
        (playerleaderboard (db s))
          (pid \<mapsto> (case playerleaderboard (db s) pid of
                     None \<Rightarrow> \<lparr>best_score = sc, last_updated = now\<rparr>
                   | Some l \<Rightarrow>
                       if best_score l < sc then \<lparr>best_score = sc, last_updated = now\<rparr>
                       else l)) \<and>
      (\<forall>q. playerleaderboard (db s') q \<noteq> playerleaderboard (db s) q \<longrightarrow>
           q = pid \<and>
           playerleaderboard (db s') q = Some \<lparr>best_score = sc, last_updated = now\<rparr>)"
    if a: "find (\<lambda>p. player_id p = pid) (playerinfo (db s)) \<noteq> None \<and> in_integer_column sc"
  proof -
    obtain p where "find (\<lambda>p. player_id p = pid) (playerinfo (db s)) = Some p"
      using a by auto
    from submit_score_db[OF this, of sc ev now] a r
    have h: "score_history (db s') =
        score_history (db s) @
          [\<lparr>history_player_id = pid, score = sc, history_created_at = now\<rparr>]"
      and l: "playerleaderboard (db s') =
        (playerleaderboard (db s))
          (pid \<mapsto> (case playerleaderboard (db s) pid of
                     None \<Rightarrow> \<lparr>best_score = sc, last_updated = now\<rparr>
                   | Some l \<Rightarrow>
                       if best_score l < sc then \<lparr>best_score = sc, last_updated = now\<rparr>
                       else l))"
      by simp_all
    have "q = pid \<and> playerleaderboard (db s') q = Some \<lparr>best_score = sc, last_updated = now\<rparr>"
      if "playerleaderboard (db s') q \<noteq> playerleaderboard (db s) q" for q
      using that unfolding l
      by (cases "playerleaderboard (db s) pid") (simp_all split: if_splits)
    then show ?thesis using h l by blast
  qed
  show ?thesis using fail ok by blast
qed

theorem submit_score_single_timestamp_witness:
  "score_history (db (snd (submit_score demo_env demo_state 7 50 2000))) =
     [\<lparr>history_player_id = 7, score = 50, history_created_at = 2000\<rparr>] \<and>
   playerleaderboard (db (snd (submit_score demo_env demo_state 7 50 2000))) 7 =
     Some \<lparr>best_score = 50, last_updated = 2000\<rparr> \<and>
   score_history (db (snd (submit_score demo_env demo_state 7 0 3000))) =
     [\<lparr>history_player_id = 7, score = 0, history_created_at = 3000\<rparr>] \<and>
   playerleaderboard (db (snd (submit_score demo_env demo_state 7 0 3000))) 7 =
     Some \<lparr>best_score = 0, last_updated = 1000\<rparr>"
proof -
  have before: "score_history (db demo_state) = []"
    "playerleaderboard (db demo_state) 7 = Some \<lparr>best_score = 0, last_updated = 1000\<rparr>"
    by (simp_all add: demo_state_eq)
  have known: "find (\<lambda>p. player_id p = 7) (playerinfo (db demo_state)) \<noteq> None"
    by (simp add: demo_state_eq)
  have after: "score_history (db (snd (submit_score demo_env demo_state 7 sc now))) =
        [\<lparr>history_player_id = 7, score = sc, history_created_at = now\<rparr>] \<and>
      playerleaderboard (db (snd (submit_score demo_env demo_state 7 sc now))) 7 =
        Some (if 0 < sc then \<lparr>best_score = sc, last_updated = now\<rparr>
              else \<lparr>best_score = 0, last_updated = 1000\<rparr>)"
    if fits: "in_integer_column sc" for sc now
  proof -
    define st where "st = snd (submit_score demo_env demo_state 7 sc now)"
    have run: "submit_score demo_env demo_state 7 sc now =
        (fst (submit_score demo_env demo_state 7 sc now), st)"
      by (simp add: st_def)
    from submit_score_single_timestamp[OF run] known fits
    have h: "score_history (db st) =
          score_history (db demo_state) @
            [\<lparr>history_player_id = 7, score = sc, history_created_at = now\<rparr>]"
      and l: "playerleaderboard (db st) =
          (playerleaderboard (db demo_state))
            (7 \<mapsto> (case playerleaderboard (db demo_state) 7 of
                       None \<Rightarrow> \<lparr>best_score = sc, last_updated = now\<rparr>
                     | Some l \<Rightarrow>
                         if best_score l < sc then \<lparr>best_score = sc, last_updated = now\<rparr>
                         else l))"
      by blast+
    have "score_history (db st) =
            [\<lparr>history_player_id = 7, score = sc, history_created_at = now\<rparr>]"
      unfolding h before by simp
    moreover have "playerleaderboard (db st) 7 =
        Some (if 0 < sc then \<lparr>best_score = sc, last_updated = now\<rparr>
              else \<lparr>best_score = 0, last_updated = 1000\<rparr>)"
      unfolding l before by simp
    ultimately show ?thesis unfolding st_def by (rule conjI)
  qed
  from after[of 50 2000] after[of 0 3000] show ?thesis
    by (simp add: in_integer_column_def)
qed

lemma submit_score_row:
  assumes "find (\<lambda>p. player_id p = pid) (playerinfo (db s)) = Some p"
      and "in_integer_column sc"
  shows "playerinfo (db (snd (submit_score ev s pid sc now))) = playerinfo (db s)"
    and "playerleaderboard (db (snd (submit_score ev s pid sc now))) pid =
         Some (case playerleaderboard (db s) pid of
                 None \<Rightarrow> \<lparr>best_score = sc, last_updated = now\<rparr>
               | Some l \<Rightarrow> if best_score l < sc then \<lparr>best_score = sc, last_updated = now\<rparr> else l)"
  using assms
  by (auto simp: submit_score_def Let_def split: option.splits sum.splits)

lemma first_achieved_Cons:
  "first_achieved m ((sc, t) # rest) = (if sc = m then Some t else first_achieved m rest)"
  by (simp add: first_achieved_def)

lemma submit_scores_present:
  assumes "find (\<lambda>p. player_id p = pid) (playerinfo (db s)) = Some p"
      and "\<forall>x \<in> set subs. in_integer_column (fst x)"
      and "playerleaderboard (db s) pid = Some l"
  shows "playerleaderboard (db (submit_scores ev s pid subs)) pid =
         (if subs = [] \<or> Max (fst ` set subs) \<le> best_score l then Some l
          else Some \<lparr>best_score = Max (fst ` set subs),
                     last_updated = the (first_achieved (Max (fst ` set subs)) subs)\<rparr>)"
  using assms
proof (induction subs arbitrary: s l)
  case Nil
  then show ?case by simp
next
  case (Cons x rest)
  obtain sc now where x: "x = (sc, now)" by (cases x)
  define s1 where "s1 = snd (submit_score ev s pid sc now)"
  define l1 where "l1 = (if best_score l < sc then \<lparr>best_score = sc, last_updated = now\<rparr> else l)"
  have sc: "in_integer_column sc" using Cons.prems(2) x by simp
  have p1: "find (\<lambda>p. player_id p = pid) (playerinfo (db s1)) = Some p"
    unfolding s1_def using submit_score_row(1)[OF Cons.prems(1) sc] Cons.prems(1) by simp
  have r1: "playerleaderboard (db s1) pid = Some l1"
    unfolding s1_def l1_def using submit_score_row(2)[OF Cons.prems(1) sc] Cons.prems(3) by simp
  have rest: "\<forall>x \<in> set rest. in_integer_column (fst x)" using Cons.prems(2) by simp
  have ih: "playerleaderboard (db (submit_scores ev s1 pid rest)) pid =
         (if rest = [] \<or> Max (fst ` set rest) \<le> best_score l1 then Some l1
          else Some \<lparr>best_score = Max (fst ` set rest),
                     last_updated = the (first_achieved (Max (fst ` set rest)) rest)\<rparr>)"
    by (rule Cons.IH[OF p1 rest r1])
  have unfold: "submit_scores ev s pid (x # rest) = submit_scores ev s1 pid rest"
    by (simp add: x s1_def)
  show ?case
  proof (cases "rest = []")
    case True
    then show ?thesis unfolding unfold ih by (auto simp: x l1_def first_achieved_Cons)
  next
    case False
    define M where "M = Max (fst ` set rest)"
    have m: "Max (fst ` set (x # rest)) = max sc M"
      using False by (simp add: x M_def)
    have fa: "first_achieved (max sc M) (x # rest) =
              (if M \<le> sc then Some now else first_achieved M rest)"
      by (auto simp: x first_achieved_Cons max_def)
    show ?thesis unfolding unfold ih m fa M_def[symmetric] using False
      by (auto simp: l1_def max_def)
  qed
qed

lemma first_achieved_Max:
  "subs \<noteq> [] \<Longrightarrow> \<exists>t. first_achieved (Max (fst ` set subs)) subs = Some t"
proof -
  assume "subs \<noteq> []"
  then have "Max (fst ` set subs) \<in> fst ` set subs" by (intro Max_in) simp_all
  then have "find (\<lambda>x. fst x = Max (fst ` set subs)) subs \<noteq> None"
    by (auto simp: find_None_iff)
  then show ?thesis by (auto simp: first_achieved_def)
qed

lemma submit_scores_absent:
  assumes "find (\<lambda>p. player_id p = pid) (playerinfo (db s)) = Some p"
      and "\<forall>x \<in> set subs. in_integer_column (fst x)"
      and "playerleaderboard (db s) pid = None"
      and "subs \<noteq> []"
  shows "playerleaderboard (db (submit_scores ev s pid subs)) pid =
         Some \<lparr>best_score = Max (fst ` set subs),
               last_updated = the (first_achieved (Max (fst ` set subs)) subs)\<rparr>"
proof -
  obtain sc now rest where subs: "subs = (sc, now) # rest"
    using assms(4) by (cases subs) auto
  define s1 where "s1 = snd (submit_score ev s pid sc now)"
  have sc: "in_integer_column sc" using assms(2) subs by simp
  have p1: "find (\<lambda>p. player_id p = pid) (playerinfo (db s1)) = Some p"
    unfolding s1_def using submit_score_row(1)[OF assms(1) sc] assms(1) by simp
  have r1: "playerleaderboard (db s1) pid = Some \<lparr>best_score = sc, last_updated = now\<rparr>"
    unfolding s1_def using submit_score_row(2)[OF assms(1) sc] assms(3) by simp
  have rest: "\<forall>x \<in> set rest. in_integer_column (fst x)" using assms(2) subs by simp
  have unfold: "submit_scores ev s pid subs = submit_scores ev s1 pid rest"
    by (simp add: subs s1_def)
  note tail = submit_scores_present[OF p1 rest r1, of ev]
  show ?thesis
  proof (cases "rest = []")
    case True
    then show ?thesis unfolding unfold tail by (simp add: subs first_achieved_Cons)
  next
    case False
    define M where "M = Max (fst ` set rest)"
    have m: "Max (fst ` set subs) = max sc M"
      using False by (simp add: subs M_def)
    have fa: "first_achieved (max sc M) subs =
              (if M \<le> sc then Some now else first_achieved M rest)"
      by (auto simp: subs first_achieved_Cons max_def)
    show ?thesis unfolding unfold tail m fa M_def[symmetric] using False
      by (auto simp: max_def)
  qed
qed

lemma demo_submit_zero:
  "playerleaderboard (db (submit_scores demo_env demo_state 7 [(0, 2000)])) 7 =
     Some \<lparr>best_score = 0, last_updated = 1000\<rparr>"
  by (simp add: demo_state_eq submit_score_def in_integer_column_def update_leaderboard_def
        demo_env_def demo_encode_zero)

text \<open>
  C1, as stated, fails. \<open>signup\<close> writes a best-score row with score 0 and the signup time
  1000. A player who then submits the single score 0 at time 2000 has the maximum 0, first
  reached by the submission at 2000, but \<^verbatim>\<open>last_updated\<close> stays 1000: the row is changed
  only by a strictly greater score.
\<close>

theorem submit_scores_signup_counterexample:
  "Max (fst ` set [(0 :: int, 2000 :: datetime)]) = 0 \<and>
   first_achieved 0 [(0, 2000)] = Some 2000 \<and>
   map_option last_updated
     (playerleaderboard (db (submit_scores demo_env demo_state 7 [(0, 2000)])) 7) = Some 1000"
  by (simp add: demo_submit_zero first_achieved_def del: submit_scores.simps)

text \<open>
  C1, amended. For a registered player and a non-empty sequence of submissions that fit the
  \<^verbatim>\<open>Integer\<close> column: if the player had no best-score row, or the maximum submitted exceeds
  the \<^verbatim>\<open>best_score\<close> the row held before (0 when created by \<open>signup\<close>), then afterwards
  \<^verbatim>\<open>best_score\<close> is the maximum score submitted and \<^verbatim>\<open>last_updated\<close> is the timestamp
  of the first submission that achieved it; otherwise the row is the one held before.
\<close>

theorem submit_scores_best:
  assumes "find (\<lambda>p. player_id p = pid) (playerinfo (db s)) \<noteq> None"
      and "subs \<noteq> []"
      and "\<forall>x \<in> set subs. in_integer_column (fst x)"
  shows "\<exists>t. first_achieved (Max (fst ` set subs)) subs = Some t \<and>
           playerleaderboard (db (submit_scores ev s pid subs)) pid =
             (case playerleaderboard (db s) pid of
                None \<Rightarrow> Some \<lparr>best_score = Max (fst ` set subs), last_updated = t\<rparr>
              | Some l \<Rightarrow>
                  if best_score l < Max (fst ` set subs)
                  then Some \<lparr>best_score = Max (fst ` set subs), last_updated = t\<rparr>
                  else Some l)"
proof -
  obtain p where p: "find (\<lambda>p. player_id p = pid) (playerinfo (db s)) = Some p"
    using assms(1) by auto
  obtain t where t: "first_achieved (Max (fst ` set subs)) subs = Some t"
    using first_achieved_Max[OF assms(2)] by auto
  show ?thesis
  proof (cases "playerleaderboard (db s) pid")
    case None
    from submit_scores_absent[OF p assms(3) None assms(2), of ev] t None
    show ?thesis by simp
  next
    case (Some l)
    define M where "M = Max (fst ` set subs)"
    from submit_scores_present[OF p assms(3) Some, of ev] t Some assms(2)
    show ?thesis unfolding M_def[symmetric] by (simp add: not_less)
  qed
qed

theorem submit_scores_best_witness:
  "playerleaderboard
     (db (submit_scores demo_env demo_state 7 [(10, 2000), (50, 3000), (30, 4000), (50, 5000)])) 7 =
   Some \<lparr>best_score = 50, last_updated = 3000\<rparr>"
  using submit_scores_best[of 7 demo_state "[(10, 2000), (50, 3000), (30, 4000), (50, 5000)]" demo_env]
  by (simp add: demo_state_eq in_integer_column_def first_achieved_def del: submit_scores.simps)

section \<open>Best-score rows over the runs of the service\<close>

lemma signup_record:
  "playerleaderboard (db (snd (signup ev s nm contact password new_id created now))) pid =
     playerleaderboard (db s) pid \<or>
   (playerleaderboard (db s) pid = None \<and>
    playerleaderboard (db (snd (signup ev s nm contact password new_id created now))) pid =
      Some \<lparr>best_score = 0, last_updated = now\<rparr>)"
  by (auto simp: signup_def Let_def split: option.splits)

lemma submit_score_record:
  "playerleaderboard (db (snd (submit_score ev s q sc now))) pid = playerleaderboard (db s) pid \<or>
   (q = pid \<and>
    playerleaderboard (db (snd (submit_score ev s q sc now))) pid =
      Some \<lparr>best_score = sc, last_updated = now\<rparr> \<and>
    (case playerleaderboard (db s) pid of None \<Rightarrow> True | Some l \<Rightarrow> best_score l < sc))"
  by (auto simp: submit_score_def Let_def split: option.splits sum.splits)

lemma step_record:
  "playerleaderboard (db (step ev s now r)) pid = playerleaderboard (db s) pid \<or>
   (\<exists>l'. playerleaderboard (db (step ev s now r)) pid = Some l' \<and> last_updated l' = now \<and>
         (case playerleaderboard (db s) pid of None \<Rightarrow> True | Some l \<Rightarrow> best_score l < best_score l'))"
proof (cases r)
  case (Signup nm contact password new_id created)
  then show ?thesis
    using signup_record[of ev s nm contact password new_id created now pid] by auto
next
  case (SubmitScore q sc)
  then show ?thesis
    using submit_score_record[of ev s q sc now pid]
    by (cases "playerleaderboard (db s) pid") auto
qed simp_all

lemma demo_reachable: "reachable demo_env demo_state"
proof -
  have "reachable demo_env init_state" by (rule reachable_init)
  then have "reachable demo_env
      (step demo_env init_state 1000 (Signup ''Ann'' ''ann@example.com'' ''secret1'' 7 900))"
    by (rule reachable_step)
  then show ?thesis by (simp add: demo_state_def SignupRequest_valid_def)
qed

lemma demo_step_state:
  "step demo_env demo_state 2000 (SubmitScore 7 50) =
     \<lparr>db = \<lparr>playerinfo = [\<lparr>player_id = 7, name = ''Ann'', phone_or_email = ''ann@example.com'',
                            password_hash = ''1terces'', created_at = 900\<rparr>],
            playerleaderboard = [7 \<mapsto> \<lparr>best_score = 50, last_updated = 2000\<rparr>],
            score_history = [\<lparr>history_player_id = 7, score = 50, history_created_at = 2000\<rparr>]\<rparr>,
      rank_index = \<lparr>global_leaderboard = [(7, Fin 49999999998)],
                    player_meta = [7 \<mapsto> (50, 2)]\<rparr>\<rparr>"
  by (simp add: SubmitScoreRequest_valid_def demo_submit_fifty)

lemma demo_step_submit:
  "playerleaderboard (db (step demo_env demo_state 2000 (SubmitScore 7 50))) 7 =
     Some \<lparr>best_score = 50, last_updated = 2000\<rparr>"
  by (simp add: demo_step_state del: step.simps)

lemma demo_encode_sixty: "encode_score_with_tiebreaker 60 1 = Inr (Fin 59999999999)"
  using encode_exact[of 60 1] by simp

lemma demo_step_regress:
  "playerleaderboard
     (db (step demo_env (step demo_env demo_state 2000 (SubmitScore 7 50)) 1500
            (SubmitScore 7 60))) 7 =
   Some \<lparr>best_score = 60, last_updated = 1500\<rparr>"
  unfolding demo_step_state
  by (simp add: SubmitScoreRequest_valid_def submit_score_def in_integer_column_def
        update_leaderboard_def demo_env_def demo_encode_sixty)

text \<open>
  C7, as stated, fails in its last part. \<open>submit_score\<close> stamps a new best score with
  the reading of the clock it took at the start of the request and does not compare it with
  the stored \<^verbatim>\<open>last_updated\<close>. In a state the service reaches, with the row (50, 2000), a
  submission of 60 that read the clock at 1500 leaves the row (60, 1500): the score grows and
  \<^verbatim>\<open>last_updated\<close> goes back.
\<close>

theorem record_regress_counterexample:
  "reachable demo_env (step demo_env demo_state 2000 (SubmitScore 7 50)) \<and>
   playerleaderboard (db (step demo_env demo_state 2000 (SubmitScore 7 50))) 7 =
     Some \<lparr>best_score = 50, last_updated = 2000\<rparr> \<and>
   playerleaderboard
     (db (step demo_env (step demo_env demo_state 2000 (SubmitScore 7 50)) 1500
            (SubmitScore 7 60))) 7 =
     Some \<lparr>best_score = 60, last_updated = 1500\<rparr>"
  using reachable_step[OF demo_reachable, of 2000 "SubmitScore 7 50"]
  by (simp add: demo_step_submit demo_step_regress del: step.simps)

text \<open>
  C7, amended. In every state (so in every state the service reaches) and for every request,
  at whatever clock reading \<open>now\<close>: a best-score row that is present stays present, and it
  is either unchanged or replaced by a row with a strictly larger \<^verbatim>\<open>best_score\<close> and
  \<^verbatim>\<open>last_updated\<close> equal to \<open>now\<close>; so \<^verbatim>\<open>best_score\<close> never decreases, and
  \<^verbatim>\<open>last_updated\<close> does not go back whenever \<open>now\<close> is not before the stored value. A
  row that is absent stays absent or appears with \<^verbatim>\<open>last_updated\<close> equal to \<open>now\<close>.
\<close>

theorem record_transitions:
  "(case playerleaderboard (db s) pid of
      None \<Rightarrow>
        (case playerleaderboard (db (step ev s now r)) pid of
           None \<Rightarrow> True
         | Some l' \<Rightarrow> last_updated l' = now)
    | Some l \<Rightarrow>
        (\<exists>l'. playerleaderboard (db (step ev s now r)) pid = Some l' \<and>
              (l' = l \<or> (best_score l < best_score l' \<and> last_updated l' = now)) \<and>
              (last_updated l \<le> now \<longrightarrow> last_updated l \<le> last_updated l')))"
  using step_record[of ev s now r pid]
  by (auto split: option.splits)

theorem record_transitions_witness:
  "playerleaderboard (db demo_state) 7 = Some \<lparr>best_score = 0, last_updated = 1000\<rparr> \<and>
   playerleaderboard (db (step demo_env demo_state 2000 (SubmitScore 7 50))) 7 =
     Some \<lparr>best_score = 50, last_updated = 2000\<rparr> \<and>
   (\<exists>l'. playerleaderboard (db (step demo_env demo_state 2000 (SubmitScore 7 50))) 7 = Some l' \<and>
         (l' = \<lparr>best_score = 0, last_updated = 1000\<rparr> \<or>
          (0 < best_score l' \<and> last_updated l' = 2000)) \<and>
         1000 \<le> last_updated l')"
proof -
  have a: "playerleaderboard (db demo_state) 7 = Some \<lparr>best_score = 0, last_updated = 1000\<rparr>"
    by (simp add: demo_state_eq)
  from record_transitions[where s = demo_state and pid = 7 and ev = demo_env and now = 2000
      and r = "SubmitScore 7 50"]
  show ?thesis using demo_step_submit by (simp add: a del: step.simps)
qed

lemma signup_players:
  "p \<in> set (playerinfo (db (snd (signup ev s nm contact password new_id created now)))) \<Longrightarrow>
   p \<in> set (playerinfo (db s)) \<or>
   (player_id p = new_id \<and>
    playerleaderboard (db (snd (signup ev s nm contact password new_id created now))) new_id =
      Some \<lparr>best_score = 0, last_updated = now\<rparr>)"
  by (auto simp: signup_def Let_def split: option.splits if_splits)

lemma signup_history:
  "score_history (db (snd (signup ev s nm contact password new_id created now))) =
   score_history (db s)"
  by (auto simp: signup_def Let_def split: option.splits)

lemma submit_score_players:
  "playerinfo (db (snd (submit_score ev s q sc now))) = playerinfo (db s)"
  by (auto simp: submit_score_def Let_def split: option.splits sum.splits)

lemma submit_score_history:
  "score_history (db (snd (submit_score ev s q sc now))) = score_history (db s) \<and>
   playerleaderboard (db (snd (submit_score ev s q sc now))) = playerleaderboard (db s) \<or>
   score_history (db (snd (submit_score ev s q sc now))) =
     score_history (db s) @ [\<lparr>history_player_id = q, score = sc, history_created_at = now\<rparr>]"
  by (auto simp: submit_score_def Let_def split: option.splits sum.splits)

lemma reachable_record_present:
  "reachable ev s \<Longrightarrow> p \<in> set (playerinfo (db s)) \<Longrightarrow>
   playerleaderboard (db s) (player_id p) \<noteq> None"
proof (induction rule: reachable.induct)
  case reachable_init
  then show ?case by (simp add: init_state_def)
next
  case (reachable_step s now r)
  show ?case
  proof (cases r)
    case (Signup nm contact password new_id created)
    show ?thesis
    proof (cases "SignupRequest_valid nm contact password")
      case True
      with reachable_step Signup
      signup_players[of p ev s nm contact password new_id created now]
      signup_record[of ev s nm contact password new_id created now "player_id p"]
      show ?thesis by auto
    next
      case False
      with reachable_step Signup show ?thesis by simp
    qed
  next
    case (SubmitScore q sc)
    with reachable_step submit_score_players[of ev s q sc now]
      submit_score_record[of ev s q sc now "player_id p"]
    show ?thesis by (auto split: if_splits)
  qed (use reachable_step in simp_all)
qed

lemma reachable_unscored_zero:
  "reachable ev s \<Longrightarrow> playerleaderboard (db s) pid = Some l \<Longrightarrow>
   \<forall>h \<in> set (score_history (db s)). history_player_id h \<noteq> pid \<Longrightarrow> best_score l = 0"
proof (induction arbitrary: l rule: reachable.induct)
  case reachable_init
  then show ?case by (simp add: init_state_def)
next
  case (reachable_step s now r)
  show ?case
  proof (cases r)
    case (Signup nm contact password new_id created)
    with reachable_step signup_history[of ev s nm contact password new_id created now]
      signup_record[of ev s nm contact password new_id created now pid]
    show ?thesis by (auto split: if_splits)
  next
    case (SubmitScore q sc)
    with reachable_step submit_score_history[of ev s q sc now]
      submit_score_record[of ev s q sc now pid]
    show ?thesis by (auto split: if_splits)
  qed (use reachable_step in simp_all)
qed

lemma signup_fresh:
  assumes "find (\<lambda>p. phone_or_email p = contact) (playerinfo (db s)) = None"
      and "find (\<lambda>p. player_id p = new_id) (playerinfo (db s)) = None"
      and "playerleaderboard (db s) new_id = None"
  shows "\<exists>s'. signup ev s nm contact password new_id created now =
                (Inr ''Signup successful. Please log in.'', s') \<and>
              playerleaderboard (db s') new_id = Some \<lparr>best_score = 0, last_updated = now\<rparr> \<and>
              score_history (db s') = score_history (db s)"
  using assms by (simp add: signup_def Let_def)

text \<open>
  C5, as stated, fails. After the signup of a player into the empty stores the player has a
  best-score row (score 0, the clock reading of the signup) although nothing was submitted:
  the row is written by \<open>signup\<close>, not by the first submission.
\<close>

theorem signup_record_counterexample:
  "playerleaderboard
     (db (snd (signup demo_env init_state ''Ann'' ''ann@example.com'' ''secret1'' 7 900 1000))) 7 =
     Some \<lparr>best_score = 0, last_updated = 1000\<rparr> \<and>
   score_history
     (db (snd (signup demo_env init_state ''Ann'' ''ann@example.com'' ''secret1'' 7 900 1000))) = []"
  by (simp add: signup_def init_state_def demo_env_def)

text \<open>
  C5, amended. A signup with a fresh contact and a fresh id succeeds and creates the
  player's best-score row with \<^verbatim>\<open>best_score\<close> 0 and \<^verbatim>\<open>last_updated\<close> the clock reading
  \<open>now\<close> of the signup, without any history row. A submission of a registered player
  (with a score that fits the column) creates the row, with the submitted score and its own
  \<open>now\<close>, only when the player has none; a row that exists is kept, or replaced when the
  score is strictly greater. In every state the service reaches, every player has a
  best-score row, and the row of a player with no score submission has \<^verbatim>\<open>best_score\<close> 0.
\<close>

theorem signup_creates_record:
  "(find (\<lambda>p. phone_or_email p = contact) (playerinfo (db s)) = None \<and>
    find (\<lambda>p. player_id p = new_id) (playerinfo (db s)) = None \<and>
    playerleaderboard (db s) new_id = None \<longrightarrow>
      (\<exists>s'. signup ev s nm contact password new_id created now =
               (Inr ''Signup successful. Please log in.'', s') \<and>
             playerleaderboard (db s') new_id = Some \<lparr>best_score = 0, last_updated = now\<rparr> \<and>
             score_history (db s') = score_history (db s))) \<and>
   (find (\<lambda>p. player_id p = pid) (playerinfo (db u)) \<noteq> None \<and> in_integer_column sc \<longrightarrow>
      playerleaderboard (db (snd (submit_score ev u pid sc clk))) pid =
        Some (case playerleaderboard (db u) pid of
                None \<Rightarrow> \<lparr>best_score = sc, last_updated = clk\<rparr>
              | Some l \<Rightarrow>
                  if best_score l < sc then \<lparr>best_score = sc, last_updated = clk\<rparr> else l)) \<and>
   (reachable ev t \<and> p \<in> set (playerinfo (db t)) \<longrightarrow>
      (\<exists>l. playerleaderboard (db t) (player_id p) = Some l \<and>
           ((\<forall>h \<in> set (score_history (db t)). history_player_id h \<noteq> player_id p) \<longrightarrow>
            best_score l = 0)))"
proof (intro conjI impI)
  assume "find (\<lambda>p. phone_or_email p = contact) (playerinfo (db s)) = None \<and>
    find (\<lambda>p. player_id p = new_id) (playerinfo (db s)) = None \<and>
    playerleaderboard (db s) new_id = None"
  then show "\<exists>s'. signup ev s nm contact password new_id created now =
               (Inr ''Signup successful. Please log in.'', s') \<and>
             playerleaderboard (db s') new_id = Some \<lparr>best_score = 0, last_updated = now\<rparr> \<and>
             score_history (db s') = score_history (db s)"
    using signup_fresh[of contact s new_id ev nm password created now] by blast
next
  assume a: "find (\<lambda>p. player_id p = pid) (playerinfo (db u)) \<noteq> None \<and> in_integer_column sc"
  then obtain q where "find (\<lambda>p. player_id p = pid) (playerinfo (db u)) = Some q" by auto
  from submit_score_row(2)[OF this, of sc ev clk] a
  show "playerleaderboard (db (snd (submit_score ev u pid sc clk))) pid =
        Some (case playerleaderboard (db u) pid of
                None \<Rightarrow> \<lparr>best_score = sc, last_updated = clk\<rparr>
              | Some l \<Rightarrow>
                  if best_score l < sc then \<lparr>best_score = sc, last_updated = clk\<rparr> else l)"
    by simp
next
  assume "reachable ev t \<and> p \<in> set (playerinfo (db t))"
  then show "\<exists>l. playerleaderboard (db t) (player_id p) = Some l \<and>
           ((\<forall>h \<in> set (score_history (db t)). history_player_id h \<noteq> player_id p) \<longrightarrow>
            best_score l = 0)"
    using reachable_record_present[of ev t p] reachable_unscored_zero[of ev t "player_id p"]
    by auto
qed

lemma rowless_submit:
  "playerleaderboard (db (snd (submit_score demo_env rowless_state 7 50 2000))) 7 =
     Some \<lparr>best_score = 50, last_updated = 2000\<rparr>"
  by (simp add: rowless_state_def submit_score_def in_integer_column_def update_leaderboard_def
        demo_env_def demo_encode_fifty)

theorem signup_creates_record_witness:
  "(\<exists>s'. signup demo_env demo_state ''Bob'' ''bob@example.com'' ''secret2'' 9 1800 2000 =
           (Inr ''Signup successful. Please log in.'', s') \<and>
         playerleaderboard (db s') 9 = Some \<lparr>best_score = 0, last_updated = 2000\<rparr> \<and>
         score_history (db s') = []) \<and>
   playerleaderboard (db rowless_state) 7 = None \<and>
   playerleaderboard (db (snd (submit_score demo_env rowless_state 7 50 2000))) 7 =
     Some \<lparr>best_score = 50, last_updated = 2000\<rparr> \<and>
   reachable demo_env demo_state \<and>
   score_history (db demo_state) = [] \<and>
   (\<exists>l. playerleaderboard (db demo_state) 7 = Some l \<and> best_score l = 0)"
proof -
  have r: "playerleaderboard (db rowless_state) 7 = None"
    "find (\<lambda>p. player_id p = 7) (playerinfo (db rowless_state)) \<noteq> None"
    by (simp_all add: rowless_state_def)
  from signup_creates_record[where contact = "''bob@example.com''" and s = demo_state
      and new_id = 9 and ev = demo_env and nm = "''Bob''" and password = "''secret2''"
      and created = 1800 and now = 2000 and pid = 7 and u = rowless_state and sc = 50
      and clk = 2000 and t = demo_state
      and p = "\<lparr>player_id = 7, name = ''Ann'', phone_or_email = ''ann@example.com'',
                password_hash = ''1terces'', created_at = 900\<rparr>"]
  show ?thesis
    using demo_reachable r by (simp add: demo_state_eq in_integer_column_def)
qed

section \<open>Reading the Rank Index\<close>

lemma index_of_None: "(index_of x xs = None) = (x \<notin> set xs)"
  by (induction xs) auto

lemma index_of_Some:
  "index_of x xs = Some i \<Longrightarrow> i < length xs \<and> xs ! i = x \<and> (\<forall>j < i. xs ! j \<noteq> x)"
proof (induction xs arbitrary: i)
  case Nil
  then show ?case by simp
next
  case (Cons y ys)
  show ?case
  proof (cases "x = y")
    case True
    with Cons.prems show ?thesis by simp
  next
    case False
    with Cons.prems obtain k where k: "index_of x ys = Some k" "i = Suc k" by auto
    from Cons.IH[OF k(1)] False k(2) show ?thesis
      by (auto simp: nth_Cons split: nat.splits)
  qed
qed

lemma set_zset_desc: "set (zset_desc z) = set z"
  by (simp add: zset_desc_def)

lemma length_zset_desc: "length (zset_desc z) = length z"
  by (simp add: zset_desc_def)

lemma zset_desc_sorted:
  "sorted_wrt (\<lambda>a b. (snd b, fst b) \<le> (snd a, fst a)) (zset_desc z)"
proof -
  have "sorted (map (\<lambda>e. (snd e, fst e)) (sort_key (\<lambda>e. (snd e, fst e)) z))"
    by (rule sorted_sort_key)
  then have "sorted_wrt (\<lambda>a b. (snd a, fst a) \<le> (snd b, fst b)) (sort_key (\<lambda>e. (snd e, fst e)) z)"
    by (simp add: sorted_map)
  then show ?thesis by (simp add: zset_desc_def sorted_wrt_rev)
qed

lemma zset_desc_top:
  assumes "(m, sc) \<in> set z"
      and "\<forall>e \<in> set z. e \<noteq> (m, sc) \<longrightarrow> snd e < sc"
  shows "\<exists>ds. zset_desc z = (m, sc) # ds"
proof (cases "zset_desc z")
  case Nil
  then have "set z = {}" using set_zset_desc[of z] by simp
  then show ?thesis using assms(1) by simp
next
  case (Cons d ds)
  have d: "d \<in> set z" using set_zset_desc[of z] Cons by auto
  have "d = (m, sc)"
  proof (rule ccontr)
    assume ne: "d \<noteq> (m, sc)"
    then have lt: "snd d < sc" using assms(2) d by blast
    have "(m, sc) \<in> set ds" using assms(1) set_zset_desc[of z] Cons ne by auto
    then have "(snd (m, sc), fst (m, sc)) \<le> (snd d, fst d)"
      using zset_desc_sorted[of z] Cons by auto
    then show False using lt by (auto simp: less_eq_prod_def)
  qed
  then show ?thesis using Cons by simp
qed

lemma drift_index:
  "global_leaderboard (rank_index drift_state) = [(7, Fin 49999999998), (9, Fin 99999999997)]"
  by (simp add: drift_state_def)

lemma drift_desc:
  "zset_desc [(7 :: uuid, Fin 49999999998), (9, Fin 99999999997)] =
     [(9, Fin 99999999997), (7, Fin 49999999998)]"
  by (simp add: zset_desc_def)

lemma drift_top:
  "get_top_n_from_redis (rank_index drift_state) 10 =
     [(9, Fin 99999999997), (7, Fin 49999999998)]"
  by (simp add: get_top_n_from_redis_def zrevrange_def drift_index drift_desc)

lemma drift_get_top:
  "get_top_leaderboard drift_state 10 =
     Inr \<lparr>total = 1,
          items = [\<lparr>entry_rank = 2, entry_player_id = 7, entry_name = ''Ann'',
                    entry_score = 50, entry_last_updated = 2000\<rparr>]\<rparr>"
  by (simp add: get_top_leaderboard_def drift_top enumerate_eq_zip upt_rec[of 0] upt_rec[of 1])
     (simp add: drift_state_def joined_players_def info_map_of_def)

lemma rank_position:
  "(q \<notin> fst ` set (global_leaderboard r) \<longrightarrow> get_rank_from_redis r q = None) \<and>
   (pid \<in> fst ` set (global_leaderboard r) \<longrightarrow>
      (\<exists>k. get_rank_from_redis r pid = Some k \<and> 1 \<le> k \<and> k \<le> length (global_leaderboard r) \<and>
           fst (zset_desc (global_leaderboard r) ! (k - 1)) = pid \<and>
           (\<forall>j < k - 1. fst (zset_desc (global_leaderboard r) ! j) \<noteq> pid))) \<and>
   ((pid, sc) \<in> set (global_leaderboard r) \<and>
    (\<forall>e \<in> set (global_leaderboard r). e \<noteq> (pid, sc) \<longrightarrow> snd e < sc) \<longrightarrow>
      get_rank_from_redis r pid = Some 1) \<and>
   (get_player_profile s p = Inr resp \<longrightarrow>
      profile_rank resp = get_rank_from_redis (rank_index s) p)"
proof (intro conjI impI)
  assume "q \<notin> fst ` set (global_leaderboard r)"
  then have "index_of q (map fst (zset_desc (global_leaderboard r))) = None"
    by (simp add: index_of_None set_zset_desc)
  then show "get_rank_from_redis r q = None"
    by (simp add: get_rank_from_redis_def zrevrank_def)
next
  assume "pid \<in> fst ` set (global_leaderboard r)"
  then have "index_of pid (map fst (zset_desc (global_leaderboard r))) \<noteq> None"
    by (simp add: index_of_None set_zset_desc)
  then obtain i where i: "index_of pid (map fst (zset_desc (global_leaderboard r))) = Some i"
    by auto
  from index_of_Some[OF i]
  have "i < length (global_leaderboard r)"
    and "fst (zset_desc (global_leaderboard r) ! i) = pid"
    and "\<forall>j < i. fst (zset_desc (global_leaderboard r) ! j) \<noteq> pid"
    by (auto simp: length_zset_desc)
  moreover have "get_rank_from_redis r pid = Some (i + 1)"
    by (simp add: get_rank_from_redis_def zrevrank_def i)
  ultimately show "\<exists>k. get_rank_from_redis r pid = Some k \<and> 1 \<le> k \<and>
      k \<le> length (global_leaderboard r) \<and>
      fst (zset_desc (global_leaderboard r) ! (k - 1)) = pid \<and>
      (\<forall>j < k - 1. fst (zset_desc (global_leaderboard r) ! j) \<noteq> pid)"
    by auto
next
  assume "(pid, sc) \<in> set (global_leaderboard r) \<and>
    (\<forall>e \<in> set (global_leaderboard r). e \<noteq> (pid, sc) \<longrightarrow> snd e < sc)"
  then obtain ds where "zset_desc (global_leaderboard r) = (pid, sc) # ds"
    using zset_desc_top[of pid sc "global_leaderboard r"] by blast
  then show "get_rank_from_redis r pid = Some 1"
    by (simp add: get_rank_from_redis_def zrevrank_def)
next
  assume "get_player_profile s p = Inr resp"
  then show "profile_rank resp = get_rank_from_redis (rank_index s) p"
    by (auto simp: get_player_profile_def split: option.splits)
qed

lemma profile_total:
  "find (\<lambda>x. player_id x = w) (playerinfo (db u)) = Some pl \<Longrightarrow>
   playerleaderboard (db u) w = Some l \<Longrightarrow>
   get_player_profile u w =
     Inr \<lparr>profile_player_id = player_id pl, profile_name = name pl,
          profile_phone_or_email = phone_or_email pl,
          profile_rank = get_rank_from_redis (rank_index u) w,
          profile_best_score = best_score l, profile_last_updated = last_updated l\<rparr>"
  by (simp add: get_player_profile_def)

text \<open>
  C9. \<open>get_rank_from_redis\<close> returns nothing for an id with no entry in the Rank Index;
  for an id with an entry it returns the 1-based position of the id's first entry in the
  descending order of the index; it returns 1 for an id whose entry has a strictly higher
  encoded value than every other entry. \<open>get_player_profile\<close> answers for every player
  that has its two Ledger rows, with this value as the rank: a player with no entry in the
  Rank Index gets a profile without a rank, not an error.
\<close>

theorem get_rank_position:
  "(q \<notin> fst ` set (global_leaderboard r) \<longrightarrow> get_rank_from_redis r q = None) \<and>
   (pid \<in> fst ` set (global_leaderboard r) \<longrightarrow>
      (\<exists>k. get_rank_from_redis r pid = Some k \<and> 1 \<le> k \<and> k \<le> length (global_leaderboard r) \<and>
           fst (zset_desc (global_leaderboard r) ! (k - 1)) = pid \<and>
           (\<forall>j < k - 1. fst (zset_desc (global_leaderboard r) ! j) \<noteq> pid))) \<and>
   ((pid, sc) \<in> set (global_leaderboard r) \<and>
    (\<forall>e \<in> set (global_leaderboard r). e \<noteq> (pid, sc) \<longrightarrow> snd e < sc) \<longrightarrow>
      get_rank_from_redis r pid = Some 1) \<and>
   (get_player_profile s p = Inr resp \<longrightarrow>
      profile_rank resp = get_rank_from_redis (rank_index s) p) \<and>
   (find (\<lambda>x. player_id x = w) (playerinfo (db u)) = Some pl \<and>
    playerleaderboard (db u) w = Some l \<longrightarrow>
      get_player_profile u w =
        Inr \<lparr>profile_player_id = player_id pl, profile_name = name pl,
             profile_phone_or_email = phone_or_email pl,
             profile_rank = get_rank_from_redis (rank_index u) w,
             profile_best_score = best_score l, profile_last_updated = last_updated l\<rparr>)"
  using rank_position[of q r pid sc s p resp] profile_total[of w u pl l]
  by blast

theorem get_rank_position_witness:
  "get_rank_from_redis (rank_index drift_state) 8 = None \<and>
   get_rank_from_redis (rank_index drift_state) 9 = Some 1 \<and>
   (\<exists>resp. get_player_profile drift_state 7 = Inr resp \<and> profile_rank resp = Some 2) \<and>
   get_rank_from_redis (rank_index demo_state) 7 = None \<and>
   get_player_profile demo_state 7 =
     Inr \<lparr>profile_player_id = 7, profile_name = ''Ann'',
          profile_phone_or_email = ''ann@example.com'', profile_rank = None,
          profile_best_score = 0, profile_last_updated = 1000\<rparr>"
proof -
  have p: "get_player_profile drift_state 7 =
      Inr \<lparr>profile_player_id = 7, profile_name = ''Ann'',
           profile_phone_or_email = ''ann@example.com'',
           profile_rank = get_rank_from_redis (rank_index drift_state) 7,
           profile_best_score = 50, profile_last_updated = 2000\<rparr>"
    by (simp add: get_player_profile_def) (simp add: drift_state_def)
  have r7: "get_rank_from_redis (rank_index drift_state) 7 = Some 2"
    by (simp add: get_rank_from_redis_def zrevrank_def drift_index drift_desc)
  have d: "find (\<lambda>x. player_id x = 7) (playerinfo (db demo_state)) =
        Some \<lparr>player_id = 7, name = ''Ann'', phone_or_email = ''ann@example.com'',
              password_hash = ''1terces'', created_at = 900\<rparr>"
    "playerleaderboard (db demo_state) 7 = Some \<lparr>best_score = 0, last_updated = 1000\<rparr>"
    "global_leaderboard (rank_index demo_state) = []"
    by (simp_all add: demo_state_eq)
  from get_rank_position[where q = 8 and r = "rank_index drift_state" and pid = 9
      and sc = "Fin 99999999997" and s = drift_state and p = 7 and u = demo_state and w = 7
      and pl = "\<lparr>player_id = 7, name = ''Ann'', phone_or_email = ''ann@example.com'',
                 password_hash = ''1terces'', created_at = 900\<rparr>"
      and l = "\<lparr>best_score = 0, last_updated = 1000\<rparr>"]
    get_rank_position[where q = 7 and r = "rank_index demo_state"]
  show ?thesis by (simp add: drift_index p r7 d)
qed

lemma joined_players_set:
  "(p, l) \<in> set (joined_players d ids) =
   (p \<in> set (playerinfo d) \<and> player_id p \<in> set ids \<and> playerleaderboard d (player_id p) = Some l)"
  by (induction "playerinfo d" arbitrary: d)
     (force simp: joined_players_def List.map_filter_def split: if_splits)+

lemma info_map_of_Some:
  assumes "info_map_of (joined_players d ids) pid = Some (p, l)"
  shows "player_id p = pid \<and> p \<in> set (playerinfo d) \<and> playerleaderboard d pid = Some l"
proof -
  have "(pid, (p, l)) \<in> set (rev (map (\<lambda>pl. (player_id (fst pl), pl)) (joined_players d ids)))"
    using assms unfolding info_map_of_def by (rule map_of_SomeD)
  then have "player_id p = pid" "(p, l) \<in> set (joined_players d ids)" by auto
  then show ?thesis by (auto simp: joined_players_set)
qed

lemma info_map_of_None:
  "(info_map_of (joined_players d ids) pid = None) =
   (\<not> (pid \<in> set ids \<and> (\<exists>p \<in> set (playerinfo d). player_id p = pid) \<and>
        playerleaderboard d pid \<noteq> None))"
proof -
  have "(info_map_of (joined_players d ids) pid = None) =
        (pid \<notin> (\<lambda>pl. player_id (fst pl)) ` set (joined_players d ids))"
    by (simp add: info_map_of_def map_of_eq_None_iff image_image)
  also have "\<dots> = (\<not> (\<exists>p l. (p, l) \<in> set (joined_players d ids) \<and> player_id p = pid))"
    by force
  also have "\<dots> = (\<not> (pid \<in> set ids \<and> (\<exists>p \<in> set (playerinfo d). player_id p = pid) \<and>
        playerleaderboard d pid \<noteq> None))"
    by (auto simp: joined_players_set)
  finally show ?thesis .
qed

lemma build_items_ranks:
  assumes "\<forall>x \<in> set es. fst (snd x) \<in> set ids"
  shows "map (\<lambda>e. (entry_rank e, entry_player_id e))
           (build_items (info_map_of (joined_players d ids)) es) =
         map (\<lambda>x. (fst x + 1, fst (snd x)))
           (filter (\<lambda>x. (\<exists>p \<in> set (playerinfo d). player_id p = fst (snd x)) \<and>
                        playerleaderboard d (fst (snd x)) \<noteq> None) es)"
  using assms
proof (induction es)
  case Nil
  then show ?case by simp
next
  case (Cons x es)
  obtain idx pid enc where x: "x = (idx, pid, enc)" by (cases x)
  have pid: "pid \<in> set ids" using Cons.prems x by simp
  have ih: "map (\<lambda>e. (entry_rank e, entry_player_id e))
           (build_items (info_map_of (joined_players d ids)) es) =
         map (\<lambda>x. (fst x + 1, fst (snd x)))
           (filter (\<lambda>x. (\<exists>p \<in> set (playerinfo d). player_id p = fst (snd x)) \<and>
                        playerleaderboard d (fst (snd x)) \<noteq> None) es)"
    using Cons by simp
  show ?case
  proof (cases "info_map_of (joined_players d ids) pid")
    case None
    then have "\<not> ((\<exists>p \<in> set (playerinfo d). player_id p = pid) \<and> playerleaderboard d pid \<noteq> None)"
      using pid by (simp add: info_map_of_None)
    then show ?thesis using None ih by (simp add: x)
  next
    case (Some pl)
    obtain p l where pl: "pl = (p, l)" by (cases pl)
    have "(\<exists>p \<in> set (playerinfo d). player_id p = pid) \<and> playerleaderboard d pid \<noteq> None"
      using Some info_map_of_None[of d ids pid] by auto
    moreover have "player_id p = pid" using info_map_of_Some[of d ids pid p l] Some pl by simp
    ultimately show ?thesis using Some ih by (simp add: x pl)
  qed
qed

lemma get_top_result:
  assumes "1 \<le> n" "n \<le> 100"
  shows "get_top_leaderboard s n =
     Inr \<lparr>total = length (build_items
              (info_map_of (joined_players (db s)
                 (map fst (get_top_n_from_redis (rank_index s) n))))
              (enumerate 0 (get_top_n_from_redis (rank_index s) n))),
          items = build_items
              (info_map_of (joined_players (db s)
                 (map fst (get_top_n_from_redis (rank_index s) n))))
              (enumerate 0 (get_top_n_from_redis (rank_index s) n))\<rparr>"
proof (cases "get_top_n_from_redis (rank_index s) n = []")
  case True
  then show ?thesis using assms by (simp add: get_top_leaderboard_def)
next
  case False
  then show ?thesis using assms by (simp add: get_top_leaderboard_def Let_def)
qed

lemma build_items_fields:
  "e \<in> set (build_items (info_map_of (joined_players d ids)) es) \<Longrightarrow>
   \<exists>p \<in> set (playerinfo d). player_id p = entry_player_id e \<and> entry_name e = name p \<and>
     playerleaderboard d (entry_player_id e) =
       Some \<lparr>best_score = entry_score e, last_updated = entry_last_updated e\<rparr>"
proof (induction es)
  case Nil
  then show ?case by simp
next
  case (Cons x es)
  obtain idx pid enc where x: "x = (idx, pid, enc)" by (cases x)
  show ?case
  proof (cases "info_map_of (joined_players d ids) pid")
    case None
    then show ?thesis using Cons by (simp add: x)
  next
    case (Some pl)
    obtain p l where pl: "pl = (p, l)" by (cases pl)
    have f: "player_id p = pid" "p \<in> set (playerinfo d)" "playerleaderboard d pid = Some l"
      using info_map_of_Some[of d ids pid p l] Some pl by simp_all
    have l: "l = \<lparr>best_score = best_score l, last_updated = last_updated l\<rparr>" by simp
    from Cons.prems Some pl consider
      "e = \<lparr>entry_rank = idx + 1, entry_player_id = player_id p, entry_name = name p,
            entry_score = best_score l, entry_last_updated = last_updated l\<rparr>"
      | "e \<in> set (build_items (info_map_of (joined_players d ids)) es)"
      by (auto simp: x)
    then show ?thesis
    proof cases
      case 1
      then show ?thesis using f l by auto
    next
      case 2
      then show ?thesis by (rule Cons.IH)
    qed
  qed
qed

text \<open>
  C4, as stated, fails in its last part. With player 9 in the Rank Index but not in the
  Ledger, the only entry returned is that of player 7 and its rank is 2, not 1: the skipped
  entry keeps its rank slot.
\<close>

theorem get_top_rank_gap_counterexample:
  "get_top_n_from_redis (rank_index drift_state) 10 =
     [(9, Fin 99999999997), (7, Fin 49999999998)] \<and>
   find (\<lambda>p. player_id p = 9) (playerinfo (db drift_state)) = None \<and>
   get_top_leaderboard drift_state 10 =
     Inr \<lparr>total = 1,
          items = [\<lparr>entry_rank = 2, entry_player_id = 7, entry_name = ''Ann'',
                    entry_score = 50, entry_last_updated = 2000\<rparr>]\<rparr>"
  by (simp add: drift_top drift_get_top) (simp add: drift_state_def)

text \<open>
  C4, amended. For every \<open>n\<close> from 1 to 100, every Rank Index and every Ledger,
  \<open>get_top_leaderboard\<close> answers with a response, never an error. It returns, in the
  order of the Rank Index, exactly the listed ids that have both a \<^verbatim>\<open>playerinfo\<close> row
  and a best-score row, each with the name and the best-score row of the Ledger; an id
  without them is skipped. The rank of each returned entry is the 1-based position of its id
  in the listing of the Rank Index, so a skipped id keeps its slot and the ranks returned
  are not renumbered. \<^verbatim>\<open>total\<close> is the number of entries returned.
\<close>

theorem get_top_ranks_are_index_positions:
  "1 \<le> n \<Longrightarrow> n \<le> 100 \<Longrightarrow>
   \<exists>resp. get_top_leaderboard s n = Inr resp \<and>
     map (\<lambda>e. (entry_rank e, entry_player_id e)) (items resp) =
       map (\<lambda>x. (fst x + 1, fst (snd x)))
         (filter (\<lambda>x. (\<exists>p \<in> set (playerinfo (db s)). player_id p = fst (snd x)) \<and>
                      playerleaderboard (db s) (fst (snd x)) \<noteq> None)
            (enumerate 0 (get_top_n_from_redis (rank_index s) n))) \<and>
     total resp = length (items resp) \<and>
     (\<forall>e \<in> set (items resp).
        \<exists>p \<in> set (playerinfo (db s)). player_id p = entry_player_id e \<and> entry_name e = name p \<and>
          playerleaderboard (db s) (entry_player_id e) =
            Some \<lparr>best_score = entry_score e, last_updated = entry_last_updated e\<rparr>)"
proof -
  assume n: "1 \<le> n" "n \<le> 100"
  define es where "es = get_top_n_from_redis (rank_index s) n"
  define its where
    "its = build_items (info_map_of (joined_players (db s) (map fst es))) (enumerate 0 es)"
  have res: "get_top_leaderboard s n = Inr \<lparr>total = length its, items = its\<rparr>"
    unfolding its_def es_def using n by (rule get_top_result)
  have ids: "\<forall>x \<in> set (enumerate 0 es). fst (snd x) \<in> set (map fst es)"
  proof
    fix x assume "x \<in> set (enumerate 0 es)"
    then have "fst x < length es" "es ! fst x = snd x" by (auto simp: in_set_enumerate_eq)
    then have "snd x \<in> set es" using nth_mem[of "fst x" es] by simp
    then show "fst (snd x) \<in> set (map fst es)" by simp
  qed
  have ranks: "map (\<lambda>e. (entry_rank e, entry_player_id e)) its =
       map (\<lambda>x. (fst x + 1, fst (snd x)))
         (filter (\<lambda>x. (\<exists>p \<in> set (playerinfo (db s)). player_id p = fst (snd x)) \<and>
                      playerleaderboard (db s) (fst (snd x)) \<noteq> None)
            (enumerate 0 es))"
    unfolding its_def by (rule build_items_ranks[OF ids])
  have fields: "\<forall>e \<in> set its.
        \<exists>p \<in> set (playerinfo (db s)). player_id p = entry_player_id e \<and> entry_name e = name p \<and>
          playerleaderboard (db s) (entry_player_id e) =
            Some \<lparr>best_score = entry_score e, last_updated = entry_last_updated e\<rparr>"
    unfolding its_def using build_items_fields by blast
  show ?thesis
    using ranks fields unfolding res es_def[symmetric] by simp
qed

theorem get_top_ranks_are_index_positions_witness:
  "get_top_leaderboard drift_state 10 =
     Inr \<lparr>total = 1,
          items = [\<lparr>entry_rank = 2, entry_player_id = 7, entry_name = ''Ann'',
                    entry_score = 50, entry_last_updated = 2000\<rparr>]\<rparr> \<and>
   map (\<lambda>x. (fst x + 1, fst (snd x)))
     (filter (\<lambda>x. (\<exists>p \<in> set (playerinfo (db drift_state)). player_id p = fst (snd x)) \<and>
                  playerleaderboard (db drift_state) (fst (snd x)) \<noteq> None)
        (enumerate 0 (get_top_n_from_redis (rank_index drift_state) 10))) = [(2, 7)]"
proof -
  have n: "(1 :: int) \<le> 10" "(10 :: int) \<le> 100" by simp_all
  from get_top_ranks_are_index_positions[OF n, of drift_state]
  obtain resp where "get_top_leaderboard drift_state 10 = Inr resp"
    and "map (\<lambda>e. (entry_rank e, entry_player_id e)) (items resp) =
       map (\<lambda>x. (fst x + 1, fst (snd x)))
         (filter (\<lambda>x. (\<exists>p \<in> set (playerinfo (db drift_state)). player_id p = fst (snd x)) \<and>
                      playerleaderboard (db drift_state) (fst (snd x)) \<noteq> None)
            (enumerate 0 (get_top_n_from_redis (rank_index drift_state) 10)))"
    by blast
  then show ?thesis using drift_get_top by auto
qed

section \<open>The order of the leaderboard\<close>

lemma encode_eval_high:
  "encode_score_with_tiebreaker 10 1701100000000 = Inr (Fin (- 1691100000000))"
  using encode_exact[of 10 1701100000000] by simp

lemma encode_eval_low:
  "encode_score_with_tiebreaker 9 1700000000000 = Inr (Fin (- 1691000000000))"
  using encode_exact[of 9 1700000000000] by simp

lemma inversion_state_eq:
  "inversion_state =
     \<lparr>db = \<lparr>playerinfo =
              [\<lparr>player_id = 7, name = ''Ann'', phone_or_email = ''ann@example.com'',
                password_hash = ''1terces'', created_at = 1690000000000000\<rparr>,
               \<lparr>player_id = 9, name = ''Bob'', phone_or_email = ''bob@example.com'',
                password_hash = ''2terces'', created_at = 1690000000000000\<rparr>],
            playerleaderboard =
              [7 \<mapsto> \<lparr>best_score = 10, last_updated = 1701100000000000\<rparr>,
               9 \<mapsto> \<lparr>best_score = 9, last_updated = 1700000000000000\<rparr>],
            score_history =
              [\<lparr>history_player_id = 9, score = 9, history_created_at = 1700000000000000\<rparr>,
               \<lparr>history_player_id = 7, score = 10, history_created_at = 1701100000000000\<rparr>]\<rparr>,
      rank_index =
        \<lparr>global_leaderboard = [(7, Fin (- 1691100000000)), (9, Fin (- 1691000000000))],
         player_meta = [9 \<mapsto> (9, 1700000000000), 7 \<mapsto> (10, 1701100000000)]\<rparr>\<rparr>"
  by (simp add: inversion_state_def SignupRequest_valid_def SubmitScoreRequest_valid_def
        signup_def submit_score_def init_state_def demo_env_def in_integer_column_def
        update_leaderboard_def encode_eval_high encode_eval_low zadd_def fun_upd_twist)

lemma inversion_top:
  "get_top_leaderboard inversion_state 10 =
     Inr \<lparr>total = 2,
          items = [\<lparr>entry_rank = 1, entry_player_id = 9, entry_name = ''Bob'',
                    entry_score = 9, entry_last_updated = 1700000000000000\<rparr>,
                   \<lparr>entry_rank = 2, entry_player_id = 7, entry_name = ''Ann'',
                    entry_score = 10, entry_last_updated = 1701100000000000\<rparr>]\<rparr>"
  by (simp add: inversion_state_eq get_top_leaderboard_def get_top_n_from_redis_def zrevrange_def
        zset_desc_def enumerate_eq_zip upt_rec[of 0] upt_rec[of 1] upt_rec[of 2]
        joined_players_def info_map_of_def)

text \<open>
  C2 (defect of the code). The docstring of the encoder says that a higher score must rank
  higher. A score of 10 reached at 1701100000000 ms (27 Nov 2023) is encoded below a score of
  9 reached at 1700000000000 ms (14 Nov 2023): the two timestamps are more than
  \<open>10 ^ 9\<close> ms (about 11.6 days) apart, and the factor \<open>10 ^ 9\<close> of the score no
  longer covers the difference. Both encodings are exact, so the inversion is not a matter
  of rounding. Through the service: after the two submissions the leaderboard lists the
  player with score 9 at rank 1 and the player with score 10 at rank 2.
\<close>

theorem encode_inversion_at_13_days:
  "encode_score_with_tiebreaker 10 1701100000000 = Inr (Fin (- 1691100000000)) \<and>
   encode_score_with_tiebreaker 9 1700000000000 = Inr (Fin (- 1691000000000)) \<and>
   ranks_above (encode_score_with_tiebreaker 9 1700000000000)
               (encode_score_with_tiebreaker 10 1701100000000) \<and>
   get_top_leaderboard inversion_state 10 =
     Inr \<lparr>total = 2,
          items = [\<lparr>entry_rank = 1, entry_player_id = 9, entry_name = ''Bob'',
                    entry_score = 9, entry_last_updated = 1700000000000000\<rparr>,
                   \<lparr>entry_rank = 2, entry_player_id = 7, entry_name = ''Ann'',
                    entry_score = 10, entry_last_updated = 1701100000000000\<rparr>]\<rparr>"
  by (simp add: encode_eval_high encode_eval_low ranks_above_def inversion_top)

end
